theory Spec2Isabelle
  imports Main
begin

unbundle bit_operations_syntax

section \<open>Values, errors and the object runtime\<close>

text \<open>
  The interpreter of \<^verbatim>\<open>vm.py\<close> works on Python objects and leaves their behaviour to
  Python itself. The values that the handlers below look into are given as a datatype;
  a class object is \<open>VClass\<close> with its name, and everything else is an opaque object
  \<open>VObj\<close>. \<open>VNone\<close> is Python's \<^verbatim>\<open>None\<close>, which
  \<^verbatim>\<open>push_null_op\<close> pushes as the null marker. A dictionary is an association list in
  insertion order; \<open>VDict\<close> has string keys, which is what a keyword collector holds.
  An iterator is a reference \<open>VIter a\<close> into a store of iterator states, since
  \<^verbatim>\<open>__next__\<close> changes the iterator object and not the stack slot that refers to it.
\<close>

datatype val =
    VNone
  | VNotImplemented
  | VBool bool
  | VInt int
  | VStr string
  | VTuple "val list"
  | VList "val list"
  | VDict "(string \<times> val) list"
  | VIter nat
  | VClass string
  | VObj nat

datatype error =
    TypeError string
  | IndexError
  | KeyError
  | AttributeError
  | ValueError
  | StopIteration

type_synonym 'a result = "error + 'a"

text \<open>The store: for each iterator object, the items it has not produced yet.\<close>

type_synonym heap = "nat \<Rightarrow> val list"

datatype binop =
  Add | Sub | Mul | TrueDiv | FloorDiv | Mod | MatMul | Pow | LShift | RShift
  | BitAnd | BitOr | BitXor

text \<open>
  The operations that the source hands to Python: calling an object, the operator
  syntax \<^verbatim>\<open>x + y\<close>, the explicit method call \<^verbatim>\<open>x.__add__(y)\<close>, truth testing,
  \<^verbatim>\<open>str\<close>, \<^verbatim>\<open>repr\<close>, \<^verbatim>\<open>ascii\<close>, \<^verbatim>\<open>obj.__getattribute__(name)\<close>,
  \<^verbatim>\<open>getattr(obj, name)\<close>, \<^verbatim>\<open>set(values)\<close> and \<^verbatim>\<open>__next__\<close> of an opaque
  object. Each may raise and each may run
  arbitrary code, so each takes the store and returns a value and a store, or an error.
\<close>

record runtime =
  rt_call :: "val \<Rightarrow> val list \<Rightarrow> (string \<times> val) list \<Rightarrow> heap \<Rightarrow> (val \<times> heap) result"
  rt_operator :: "binop \<Rightarrow> val \<Rightarrow> val \<Rightarrow> heap \<Rightarrow> (val \<times> heap) result"
  rt_method :: "binop \<Rightarrow> val \<Rightarrow> val \<Rightarrow> heap \<Rightarrow> (val \<times> heap) result"
  rt_bool :: "val \<Rightarrow> heap \<Rightarrow> (bool \<times> heap) result"
  rt_str :: "val \<Rightarrow> heap \<Rightarrow> (val \<times> heap) result"
  rt_repr :: "val \<Rightarrow> heap \<Rightarrow> (val \<times> heap) result"
  rt_ascii :: "val \<Rightarrow> heap \<Rightarrow> (val \<times> heap) result"
  rt_getattribute :: "val \<Rightarrow> string \<Rightarrow> heap \<Rightarrow> (val \<times> heap) result"
  rt_getattr :: "val \<Rightarrow> string \<Rightarrow> heap \<Rightarrow> (val \<times> heap) result"
  rt_set :: "val list \<Rightarrow> heap \<Rightarrow> (val \<times> heap) result"
  rt_next :: "val \<Rightarrow> heap \<Rightarrow> (val \<times> heap) result"

section \<open>Python lists and dictionaries\<close>

text \<open>
  \<^verbatim>\<open>xs[i]\<close> counts a negative index from the end and raises IndexError out of range;
  the slices \<^verbatim>\<open>xs[i:]\<close> and \<^verbatim>\<open>xs[:i]\<close> clip instead of raising.
\<close>

definition py_index :: "'a list \<Rightarrow> int \<Rightarrow> 'a result" where
  "py_index xs i =
     (if 0 \<le> i \<and> i < int (length xs) then Inr (xs ! nat i)
      else if i < 0 \<and> - int (length xs) \<le> i then Inr (xs ! nat (int (length xs) + i))
      else Inl IndexError)"

definition slice_from :: "'a list \<Rightarrow> int \<Rightarrow> 'a list" where
  "slice_from xs i = drop (nat (if i < 0 then int (length xs) + i else i)) xs"

definition slice_to :: "'a list \<Rightarrow> int \<Rightarrow> 'a list" where
  "slice_to xs i = take (nat (if i < 0 then int (length xs) + i else i)) xs"

text \<open>\<^verbatim>\<open>d[k] = v\<close>: an existing key keeps its place, a new key goes to the end.\<close>

fun dict_set :: "('k \<times> 'v) list \<Rightarrow> 'k \<Rightarrow> 'v \<Rightarrow> ('k \<times> 'v) list" where
  "dict_set [] k v = [(k, v)]"
| "dict_set ((k', v') # d) k v =
     (if k' = k then (k, v) # d else (k', v') # dict_set d k v)"

text \<open>\<^verbatim>\<open>dict(pairs)\<close>: the pairs are stored one after the other.\<close>

fun dict_of :: "('k \<times> 'v) list \<Rightarrow> ('k \<times> 'v) list \<Rightarrow> ('k \<times> 'v) list" where
  "dict_of d [] = d"
| "dict_of d ((k, v) # ps) = dict_of (dict_set d k v) ps"

section \<open>Instructions, code objects and frames\<close>

text \<open>
  An instruction of \<^verbatim>\<open>dis.get_instructions\<close> has an offset, a name and an operand.
  \<^verbatim>\<open>Frame.run\<close> passes \<^verbatim>\<open>arg\<close> to the handlers named in \<^verbatim>\<open>_ARG\<close> and
  \<^verbatim>\<open>argval\<close> to the others; the constructor below carries the operand that the
  handler receives (for a jump, the offset of its target). The instructions listed are
  the ones this development covers.
\<close>

datatype instr =
    RESUME
  | PUSH_NULL
  | PRECALL
  | NOP
  | CALL int
  | KW_NAMES int
  | LOAD_CONST val
  | RETURN_VALUE
  | POP_TOP
  | BINARY_OP int
  | JUMP_FORWARD int
  | JUMP_BACKWARD int
  | FOR_ITER int
  | POP_JUMP_FORWARD_IF_TRUE int
  | POP_JUMP_FORWARD_IF_FALSE int
  | POP_JUMP_BACKWARD_IF_TRUE int
  | POP_JUMP_BACKWARD_IF_FALSE int
  | JUMP_IF_TRUE_OR_POP int
  | JUMP_IF_FALSE_OR_POP int
  | POP_JUMP_FORWARD_IF_NONE int
  | BUILD_LIST int
  | BUILD_TUPLE int
  | BUILD_SET int
  | FORMAT_VALUE int
  | LOAD_METHOD string
  | LOAD_ATTR string

record instruction =
  offset :: int
  ins :: instr

record code_obj =
  co_varnames :: "string list"
  co_argcount :: nat
  co_posonlyargcount :: nat
  co_kwonlyargcount :: nat
  co_nlocals :: nat
  co_flags :: nat
  co_consts :: "val list"
  co_instrs :: "instruction list"

text \<open>
  The attributes of \<^verbatim>\<open>Frame\<close> that the handlers covered here read or write, and the
  store that the references on the stack point into. \<open>data_stack\<close> has its top at the
  end, as the Python list has. The scope mappings and \<^verbatim>\<open>last_raised_exception\<close> are
  touched by none of these handlers and are left out.
\<close>

record frame =
  code :: code_obj
  data_stack :: "val list"
  return_value :: val
  index :: "int \<rightharpoonup> int"
  counter :: int
  kw_names :: "string list"
  heap :: heap

definition new_frame :: "code_obj \<Rightarrow> heap \<Rightarrow> frame" where
  "new_frame c h =
     \<lparr>code = c, data_stack = [], return_value = VNone, index = Map.empty, counter = 0,
      kw_names = [], heap = h\<rparr>"

section \<open>The stack primitives\<close>

text \<open>\<^verbatim>\<open>Frame.top\<close> is \<open>top_stack\<close> here, since \<open>top\<close> is a constant of HOL.\<close>

definition top_stack :: "frame \<Rightarrow> val result" where
  "top_stack fr = (if data_stack fr = [] then Inl IndexError else Inr (last (data_stack fr)))"

definition pop :: "frame \<Rightarrow> (val \<times> frame) result" where
  "pop fr =
     (if data_stack fr = [] then Inl IndexError
      else Inr (last (data_stack fr), fr\<lparr>data_stack := butlast (data_stack fr)\<rparr>))"

definition push :: "val \<Rightarrow> frame \<Rightarrow> frame" where
  "push v fr = fr\<lparr>data_stack := data_stack fr @ [v]\<rparr>"

definition popn :: "int \<Rightarrow> frame \<Rightarrow> val list \<times> frame" where
  "popn n fr =
     (if n > 0
      then (slice_from (data_stack fr) (- n),
            fr\<lparr>data_stack := slice_to (data_stack fr) (- n)\<rparr>)
      else ([], fr))"

section \<open>Building containers\<close>

definition build_list_op :: "int \<Rightarrow> frame \<Rightarrow> frame result" where
  "build_list_op count fr = (case popn count fr of (values, fr1) \<Rightarrow> Inr (push (VList values) fr1))"

text \<open>
  \<^verbatim>\<open>build_tuple_op\<close> pushes what \<^verbatim>\<open>popn\<close> returned, which is a Python list: the
  slice of a list, or the literal \<^verbatim>\<open>[]\<close>.
\<close>

definition build_tuple_op :: "int \<Rightarrow> frame \<Rightarrow> frame result" where
  "build_tuple_op count fr = (case popn count fr of (values, fr1) \<Rightarrow> Inr (push (VList values) fr1))"

definition build_set_op :: "runtime \<Rightarrow> int \<Rightarrow> frame \<Rightarrow> frame result" where
  "build_set_op rt count fr =
     (case popn count fr of (values, fr1) \<Rightarrow>
        (case rt_set rt values (heap fr1) of
           Inl e \<Rightarrow> Inl e
         | Inr (s, h) \<Rightarrow> Inr (push s (fr1\<lparr>heap := h\<rparr>))))"

section \<open>Attributes\<close>

definition load_attr_op :: "runtime \<Rightarrow> string \<Rightarrow> frame \<Rightarrow> frame result" where
  "load_attr_op rt namei fr =
     (case pop fr of
        Inl e \<Rightarrow> Inl e
      | Inr (obj, fr1) \<Rightarrow>
          (case rt_getattribute rt obj namei (heap fr1) of
             Inl e \<Rightarrow> Inl e
           | Inr (_, h) \<Rightarrow> Inr (push obj (fr1\<lparr>heap := h\<rparr>))))"

definition load_method_op :: "runtime \<Rightarrow> string \<Rightarrow> frame \<Rightarrow> frame result" where
  "load_method_op rt namei fr =
     (case pop fr of
        Inl e \<Rightarrow> Inl e
      | Inr (v, fr1) \<Rightarrow>
          (case rt_getattr rt v namei (heap (push VNone fr1)) of
             Inl e \<Rightarrow> Inl e
           | Inr (m, h) \<Rightarrow> Inr (push m ((push VNone fr1)\<lparr>heap := h\<rparr>))))"

section \<open>Binary operators\<close>

text \<open>
  The table \<^verbatim>\<open>_BINARIES\<close>: the codes 0 to 12 use the operator syntax, the codes 13
  to 25 call the method of the left operand. Any other code is a missing key.
\<close>

definition BINARIES ::
  "runtime \<Rightarrow> int \<Rightarrow> (val \<Rightarrow> val \<Rightarrow> heap \<Rightarrow> (val \<times> heap) result) option" where
  "BINARIES rt op =
     (if op = 0 then Some (rt_operator rt Add)
      else if op = 10 then Some (rt_operator rt Sub)
      else if op = 5 then Some (rt_operator rt Mul)
      else if op = 11 then Some (rt_operator rt TrueDiv)
      else if op = 2 then Some (rt_operator rt FloorDiv)
      else if op = 6 then Some (rt_operator rt Mod)
      else if op = 4 then Some (rt_operator rt MatMul)
      else if op = 8 then Some (rt_operator rt Pow)
      else if op = 3 then Some (rt_operator rt LShift)
      else if op = 9 then Some (rt_operator rt RShift)
      else if op = 1 then Some (rt_operator rt BitAnd)
      else if op = 7 then Some (rt_operator rt BitOr)
      else if op = 12 then Some (rt_operator rt BitXor)
      else if op = 13 then Some (rt_method rt Add)
      else if op = 23 then Some (rt_method rt Sub)
      else if op = 18 then Some (rt_method rt Mul)
      else if op = 24 then Some (rt_method rt TrueDiv)
      else if op = 15 then Some (rt_method rt FloorDiv)
      else if op = 19 then Some (rt_method rt Mod)
      else if op = 17 then Some (rt_method rt MatMul)
      else if op = 21 then Some (rt_method rt Pow)
      else if op = 16 then Some (rt_method rt LShift)
      else if op = 22 then Some (rt_method rt RShift)
      else if op = 14 then Some (rt_method rt BitAnd)
      else if op = 20 then Some (rt_method rt BitOr)
      else if op = 25 then Some (rt_method rt BitXor)
      else None)"

definition binary_op_op :: "runtime \<Rightarrow> int \<Rightarrow> frame \<Rightarrow> frame result" where
  "binary_op_op rt op fr =
     (case pop fr of
        Inl e \<Rightarrow> Inl e
      | Inr (right, fr1) \<Rightarrow>
          (case pop fr1 of
             Inl e \<Rightarrow> Inl e
           | Inr (left, fr2) \<Rightarrow>
               (case BINARIES rt op of
                  None \<Rightarrow> Inl KeyError
                | Some f \<Rightarrow>
                    (case f left right (heap fr2) of
                       Inl e \<Rightarrow> Inl e
                     | Inr (r, h) \<Rightarrow> Inr (push r (fr2\<lparr>heap := h\<rparr>))))))"

section \<open>Calls\<close>

text \<open>
  \<^verbatim>\<open>kw_names_op\<close> stores \<^verbatim>\<open>co_consts[consti]\<close>, which the bytecode format requires to
  be a tuple of strings. The slot holds the strings; a constant of another shape is
  outside the format and is refused here.
\<close>

fun strings_of :: "val list \<Rightarrow> string list option" where
  "strings_of [] = Some []"
| "strings_of (VStr s # vs) = map_option ((#) s) (strings_of vs)"
| "strings_of (_ # vs) = None"

definition kw_names_op :: "int \<Rightarrow> frame \<Rightarrow> frame result" where
  "kw_names_op consti fr =
     (case py_index (co_consts (code fr)) consti of
        Inl e \<Rightarrow> Inl e
      | Inr (VTuple vs) \<Rightarrow>
          (case strings_of vs of
             None \<Rightarrow> Inl (TypeError ''kw_names: not a tuple of strings'')
           | Some ns \<Rightarrow> Inr (fr\<lparr>kw_names := ns\<rparr>))
      | Inr _ \<Rightarrow> Inl (TypeError ''kw_names: not a tuple of strings''))"

definition call_op :: "runtime \<Rightarrow> int \<Rightarrow> frame \<Rightarrow> frame result" where
  "call_op rt argc fr =
     (case popn argc fr of (all_args, fr1) \<Rightarrow>
        (case (if kw_names fr1 \<noteq> []
               then (slice_to all_args (int (length all_args) - int (length (kw_names fr1))),
                     dict_of [] (zip (kw_names fr1)
                                     (slice_from all_args (- int (length (kw_names fr1))))))
               else (all_args, []))
         of (args, kwargs) \<Rightarrow>
           (case pop fr1 of
              Inl e \<Rightarrow> Inl e
            | Inr (func, fr2) \<Rightarrow>
                (case top_stack fr2 of
                   Inl e \<Rightarrow> Inl e
                 | Inr t \<Rightarrow>
                     (if t = VNone then
                        (case pop fr2 of
                           Inl e \<Rightarrow> Inl e
                         | Inr (_, fr3) \<Rightarrow>
                             (case rt_call rt func args kwargs (heap fr3) of
                                Inl e \<Rightarrow> Inl e
                              | Inr (r, h) \<Rightarrow> Inr (push r (fr3\<lparr>heap := h\<rparr>))))
                      else
                        (case pop fr2 of
                           Inl e \<Rightarrow> Inl e
                         | Inr (func', fr3) \<Rightarrow>
                             (case rt_call rt func' (func # args) kwargs (heap fr3) of
                                Inl e \<Rightarrow> Inl e
                              | Inr (r, h) \<Rightarrow> Inr (push r (fr3\<lparr>heap := h\<rparr>)))))))))"

section \<open>Formatting\<close>

definition format_value_op :: "runtime \<Rightarrow> int \<Rightarrow> frame \<Rightarrow> frame result" where
  "format_value_op rt flags fr =
     (if (flags AND 4) = 1 then
        (case pop fr of
           Inl e \<Rightarrow> Inl e
         | Inr (format_spec, fr1) \<Rightarrow>
             (case pop fr1 of
                Inl e \<Rightarrow> Inl e
              | Inr (obj, fr2) \<Rightarrow>
                  (case rt_call rt format_spec [obj] [] (heap fr2) of
                     Inl e \<Rightarrow> Inl e
                   | Inr (r, h) \<Rightarrow> Inr (push r (fr2\<lparr>heap := h\<rparr>)))))
      else
        (case pop fr of
           Inl e \<Rightarrow> Inl e
         | Inr (obj, fr1) \<Rightarrow>
             (if (flags AND 3) = 1 then
                (case rt_str rt obj (heap fr1) of
                   Inl e \<Rightarrow> Inl e
                 | Inr (r, h) \<Rightarrow> Inr (push r (fr1\<lparr>heap := h\<rparr>)))
              else if (flags AND 3) = 2 then
                (case rt_repr rt obj (heap fr1) of
                   Inl e \<Rightarrow> Inl e
                 | Inr (r, h) \<Rightarrow> Inr (push r (fr1\<lparr>heap := h\<rparr>)))
              else if (flags AND 3) = 3 then
                (case rt_ascii rt obj (heap fr1) of
                   Inl e \<Rightarrow> Inl e
                 | Inr (r, h) \<Rightarrow> Inr (push r (fr1\<lparr>heap := h\<rparr>)))
              else Inr fr1)))"

section \<open>Control flow\<close>

definition jump_forward_op :: "int \<Rightarrow> frame \<Rightarrow> frame result" where
  "jump_forward_op to fr =
     (case index fr to of None \<Rightarrow> Inl KeyError | Some i \<Rightarrow> Inr (fr\<lparr>counter := i - 1\<rparr>))"

definition jump_backward_op :: "int \<Rightarrow> frame \<Rightarrow> frame result" where
  "jump_backward_op to fr =
     (case index fr to of None \<Rightarrow> Inl KeyError | Some i \<Rightarrow> Inr (fr\<lparr>counter := i - 1\<rparr>))"

text \<open>
  \<^verbatim>\<open>self.top().__next__()\<close>: a list iterator hands out its next item or raises
  StopIteration; an opaque object answers through the runtime; the other values have
  no such method.
\<close>

definition py_next :: "runtime \<Rightarrow> val \<Rightarrow> heap \<Rightarrow> (val \<times> heap) result" where
  "py_next rt v h =
     (case v of
        VIter a \<Rightarrow> (case h a of [] \<Rightarrow> Inl StopIteration | x # xs \<Rightarrow> Inr (x, h(a := xs)))
      | VObj n \<Rightarrow> rt_next rt v h
      | _ \<Rightarrow> Inl AttributeError)"

definition for_iter_op :: "runtime \<Rightarrow> int \<Rightarrow> frame \<Rightarrow> frame result" where
  "for_iter_op rt to fr =
     (case top_stack fr of
        Inl e \<Rightarrow> Inl e
      | Inr it \<Rightarrow>
          (case py_next rt it (heap fr) of
             Inr (v, h) \<Rightarrow> Inr (push v (fr\<lparr>heap := h\<rparr>))
           | Inl e \<Rightarrow>
               (if e = StopIteration then
                  (case pop fr of
                     Inl e' \<Rightarrow> Inl e'
                   | Inr (_, fr1) \<Rightarrow> jump_forward_op to fr1)
                else Inl e)))"

definition pop_jump_forward_if_true_op :: "runtime \<Rightarrow> int \<Rightarrow> frame \<Rightarrow> frame result" where
  "pop_jump_forward_if_true_op rt to fr =
     (case pop fr of
        Inl e \<Rightarrow> Inl e
      | Inr (cond, fr1) \<Rightarrow>
          (case rt_bool rt cond (heap fr1) of
             Inl e \<Rightarrow> Inl e
           | Inr (b, h) \<Rightarrow>
               (if b then jump_forward_op to (fr1\<lparr>heap := h\<rparr>) else Inr (fr1\<lparr>heap := h\<rparr>))))"

definition pop_jump_forward_if_false_op :: "runtime \<Rightarrow> int \<Rightarrow> frame \<Rightarrow> frame result" where
  "pop_jump_forward_if_false_op rt to fr =
     (case pop fr of
        Inl e \<Rightarrow> Inl e
      | Inr (cond, fr1) \<Rightarrow>
          (case rt_bool rt cond (heap fr1) of
             Inl e \<Rightarrow> Inl e
           | Inr (b, h) \<Rightarrow>
               (if \<not> b then jump_forward_op to (fr1\<lparr>heap := h\<rparr>) else Inr (fr1\<lparr>heap := h\<rparr>))))"

definition pop_jump_backward_if_true_op :: "runtime \<Rightarrow> int \<Rightarrow> frame \<Rightarrow> frame result" where
  "pop_jump_backward_if_true_op rt to fr =
     (case pop fr of
        Inl e \<Rightarrow> Inl e
      | Inr (cond, fr1) \<Rightarrow>
          (case rt_bool rt cond (heap fr1) of
             Inl e \<Rightarrow> Inl e
           | Inr (b, h) \<Rightarrow>
               (if b then jump_forward_op to (fr1\<lparr>heap := h\<rparr>) else Inr (fr1\<lparr>heap := h\<rparr>))))"

definition pop_jump_backward_if_false_op :: "runtime \<Rightarrow> int \<Rightarrow> frame \<Rightarrow> frame result" where
  "pop_jump_backward_if_false_op rt to fr =
     (case pop fr of
        Inl e \<Rightarrow> Inl e
      | Inr (cond, fr1) \<Rightarrow>
          (case rt_bool rt cond (heap fr1) of
             Inl e \<Rightarrow> Inl e
           | Inr (b, h) \<Rightarrow>
               (if \<not> b then jump_forward_op to (fr1\<lparr>heap := h\<rparr>) else Inr (fr1\<lparr>heap := h\<rparr>))))"

definition jump_if_true_or_pop_op :: "runtime \<Rightarrow> int \<Rightarrow> frame \<Rightarrow> frame result" where
  "jump_if_true_or_pop_op rt to fr =
     (case top_stack fr of
        Inl e \<Rightarrow> Inl e
      | Inr cond \<Rightarrow>
          (case rt_bool rt cond (heap fr) of
             Inl e \<Rightarrow> Inl e
           | Inr (b, h) \<Rightarrow>
               (if b then jump_forward_op to (fr\<lparr>heap := h\<rparr>)
                else (case pop (fr\<lparr>heap := h\<rparr>) of Inl e \<Rightarrow> Inl e | Inr (_, fr1) \<Rightarrow> Inr fr1))))"

definition jump_if_false_or_pop_op :: "runtime \<Rightarrow> int \<Rightarrow> frame \<Rightarrow> frame result" where
  "jump_if_false_or_pop_op rt to fr =
     (case top_stack fr of
        Inl e \<Rightarrow> Inl e
      | Inr cond \<Rightarrow>
          (case rt_bool rt cond (heap fr) of
             Inl e \<Rightarrow> Inl e
           | Inr (b, h) \<Rightarrow>
               (if \<not> b then jump_forward_op to (fr\<lparr>heap := h\<rparr>)
                else (case pop (fr\<lparr>heap := h\<rparr>) of Inl e \<Rightarrow> Inl e | Inr (_, fr1) \<Rightarrow> Inr fr1))))"

definition pop_jump_forward_if_none_op :: "int \<Rightarrow> frame \<Rightarrow> frame result" where
  "pop_jump_forward_if_none_op to fr =
     (case pop fr of
        Inl e \<Rightarrow> Inl e
      | Inr (item, fr1) \<Rightarrow> (if item = VNone then jump_forward_op to fr1 else Inr fr1))"

section \<open>The remaining handlers and the dispatch loop\<close>

definition return_value_op :: "frame \<Rightarrow> frame result" where
  "return_value_op fr =
     (case pop fr of Inl e \<Rightarrow> Inl e | Inr (v, fr1) \<Rightarrow> Inr (fr1\<lparr>return_value := v\<rparr>))"

definition pop_top_op :: "frame \<Rightarrow> frame result" where
  "pop_top_op fr = (case pop fr of Inl e \<Rightarrow> Inl e | Inr (_, fr1) \<Rightarrow> Inr fr1)"

text \<open>
  \<^verbatim>\<open>getattr(self, func_name)(...)\<close>: the handler that the name of the instruction
  selects, applied to its operand.
\<close>

fun dispatch :: "runtime \<Rightarrow> instr \<Rightarrow> frame \<Rightarrow> frame result" where
  "dispatch rt RESUME fr = Inr fr"
| "dispatch rt PUSH_NULL fr = Inr (push VNone fr)"
| "dispatch rt PRECALL fr = Inr fr"
| "dispatch rt NOP fr = Inr fr"
| "dispatch rt (CALL argc) fr = call_op rt argc fr"
| "dispatch rt (KW_NAMES consti) fr = kw_names_op consti fr"
| "dispatch rt (LOAD_CONST consti) fr = Inr (push consti fr)"
| "dispatch rt RETURN_VALUE fr = return_value_op fr"
| "dispatch rt POP_TOP fr = pop_top_op fr"
| "dispatch rt (BINARY_OP op) fr = binary_op_op rt op fr"
| "dispatch rt (JUMP_FORWARD to) fr = jump_forward_op to fr"
| "dispatch rt (JUMP_BACKWARD to) fr = jump_backward_op to fr"
| "dispatch rt (FOR_ITER to) fr = for_iter_op rt to fr"
| "dispatch rt (POP_JUMP_FORWARD_IF_TRUE to) fr = pop_jump_forward_if_true_op rt to fr"
| "dispatch rt (POP_JUMP_FORWARD_IF_FALSE to) fr = pop_jump_forward_if_false_op rt to fr"
| "dispatch rt (POP_JUMP_BACKWARD_IF_TRUE to) fr = pop_jump_backward_if_true_op rt to fr"
| "dispatch rt (POP_JUMP_BACKWARD_IF_FALSE to) fr = pop_jump_backward_if_false_op rt to fr"
| "dispatch rt (JUMP_IF_TRUE_OR_POP to) fr = jump_if_true_or_pop_op rt to fr"
| "dispatch rt (JUMP_IF_FALSE_OR_POP to) fr = jump_if_false_or_pop_op rt to fr"
| "dispatch rt (POP_JUMP_FORWARD_IF_NONE to) fr = pop_jump_forward_if_none_op to fr"
| "dispatch rt (BUILD_LIST count) fr = build_list_op count fr"
| "dispatch rt (BUILD_TUPLE count) fr = build_tuple_op count fr"
| "dispatch rt (BUILD_SET count) fr = build_set_op rt count fr"
| "dispatch rt (FORMAT_VALUE flags) fr = format_value_op rt flags fr"
| "dispatch rt (LOAD_METHOD namei) fr = load_method_op rt namei fr"
| "dispatch rt (LOAD_ATTR namei) fr = load_attr_op rt namei fr"

text \<open>
  One pass through the body of \<^verbatim>\<open>while True\<close> in \<^verbatim>\<open>Frame.run\<close>: \<open>Finished v\<close>
  when the loop breaks and \<^verbatim>\<open>run\<close> returns \<open>v\<close>, \<open>Continue fr\<close> when it goes round
  again.
\<close>

datatype status = Continue frame | Finished val

definition loop_body :: "runtime \<Rightarrow> frame \<Rightarrow> status result" where
  "loop_body rt fr =
     (if counter fr \<ge> int (length (co_instrs (code fr))) then Inr (Finished (return_value fr))
      else
        (case py_index (co_instrs (code fr)) (counter fr) of
           Inl e \<Rightarrow> Inl e
         | Inr i \<Rightarrow>
             (case dispatch rt (ins i) fr of
                Inl e \<Rightarrow> Inl e
              | Inr fr1 \<Rightarrow>
                  (if ins i = RETURN_VALUE then Inr (Finished (return_value fr1))
                   else Inr (Continue (fr1\<lparr>counter := counter fr1 + 1\<rparr>))))))"

text \<open>The loop may run forever, so its result is an option: \<open>None\<close> when it never returns.\<close>

partial_function (option) run_loop :: "runtime \<Rightarrow> frame \<Rightarrow> val result option" where
  "run_loop rt fr =
     (case loop_body rt fr of
        Inl e \<Rightarrow> Some (Inl e)
      | Inr (Finished v) \<Rightarrow> Some (Inr v)
      | Inr (Continue fr1) \<Rightarrow> run_loop rt fr1)"

text \<open>The Offset Index: \<^verbatim>\<open>self.index[ins_lst[i].offset] = i\<close> for each position in turn.\<close>

fun build_index :: "instruction list \<Rightarrow> int \<Rightarrow> (int \<rightharpoonup> int) \<Rightarrow> (int \<rightharpoonup> int)" where
  "build_index [] i m = m"
| "build_index (x # xs) i m = build_index xs (i + 1) (m(offset x \<mapsto> i))"

definition run :: "runtime \<Rightarrow> frame \<Rightarrow> val result option" where
  "run rt fr = run_loop rt (fr\<lparr>index := build_index (co_instrs (code fr)) 0 (index fr)\<rparr>)"

text \<open>The first \<open>n\<close> passes of the loop, and how many of them fetched position \<open>c\<close>.\<close>

fun passes :: "runtime \<Rightarrow> nat \<Rightarrow> frame \<Rightarrow> status result" where
  "passes rt 0 fr = Inr (Continue fr)"
| "passes rt (Suc n) fr =
     (case loop_body rt fr of
        Inr (Continue fr1) \<Rightarrow> passes rt n fr1
      | r \<Rightarrow> r)"

fun fetches :: "runtime \<Rightarrow> nat \<Rightarrow> frame \<Rightarrow> int \<Rightarrow> nat" where
  "fetches rt 0 fr c = 0"
| "fetches rt (Suc n) fr c =
     (if counter fr = c \<and> c < int (length (co_instrs (code fr))) then 1 else 0)
     + (case loop_body rt fr of Inr (Continue fr1) \<Rightarrow> fetches rt n fr1 c | _ \<Rightarrow> 0)"

section \<open>Argument binding\<close>

text \<open>
  The function \<^verbatim>\<open>f\<close> that \<^verbatim>\<open>make_function_op\<close> pushes first computes
  \<^verbatim>\<open>parsed_args\<close> from its arguments, the code object and the captured defaults, and
  then runs a new frame. \<open>bind_args\<close> is that computation, loop by loop.
\<close>

definition ERR_TOO_MANY_POS_ARGS :: string where
  "ERR_TOO_MANY_POS_ARGS = ''Too many positional arguments''"

definition ERR_TOO_MANY_KW_ARGS :: string where
  "ERR_TOO_MANY_KW_ARGS = ''Too many keyword arguments''"

definition ERR_MULT_VALUES_FOR_ARG :: string where
  "ERR_MULT_VALUES_FOR_ARG = ''Multiple values for arguments''"

definition ERR_MISSING_POS_ARGS :: string where
  "ERR_MISSING_POS_ARGS = ''Missing positional arguments''"

definition ERR_MISSING_KWONLY_ARGS :: string where
  "ERR_MISSING_KWONLY_ARGS = ''Missing keyword-only arguments''"

definition ERR_POSONLY_PASSED_AS_KW :: string where
  "ERR_POSONLY_PASSED_AS_KW = ''Positional-only argument passed as keyword argument''"

text \<open>\<^verbatim>\<open>key in d\<close> and \<^verbatim>\<open>names.index(key)\<close>.\<close>

definition has_key :: "('k \<times> 'v) list \<Rightarrow> 'k \<Rightarrow> bool" where
  "has_key d k = (map_of d k \<noteq> None)"

fun index_of :: "'a list \<Rightarrow> 'a \<Rightarrow> nat" where
  "index_of [] k = 0"
| "index_of (x # xs) k = (if x = k then 0 else Suc (index_of xs k))"

text \<open>
  \<^verbatim>\<open>len(v)\<close> and \<^verbatim>\<open>parsed_args[varkw_name][key] = val\<close> for the values that can sit
  in a collector's slot. A keyword argument named like the collector replaces the
  collector; a replacement of another shape makes the later use fail. An opaque object
  is taken to support neither operation.
\<close>

definition py_len :: "val \<Rightarrow> nat result" where
  "py_len v =
     (case v of
        VTuple xs \<Rightarrow> Inr (length xs)
      | VList xs \<Rightarrow> Inr (length xs)
      | VStr s \<Rightarrow> Inr (length s)
      | VDict d \<Rightarrow> Inr (length d)
      | _ \<Rightarrow> Inl (TypeError ''object has no len()''))"

definition collect_kw ::
  "(string \<times> val) list \<Rightarrow> string \<Rightarrow> string \<Rightarrow> val \<Rightarrow> (string \<times> val) list result" where
  "collect_kw parsed_args varkw_name key v =
     (case map_of parsed_args varkw_name of
        None \<Rightarrow> Inl KeyError
      | Some (VDict d) \<Rightarrow> Inr (dict_set parsed_args varkw_name (VDict (dict_set d key v)))
      | Some _ \<Rightarrow> Inl (TypeError ''object does not support item assignment''))"

text \<open>
  A collector is declared when its flag is set: its name is read at \<^verbatim>\<open>names[shift]\<close>
  and bound to the empty collection. The name is \<open>None\<close> when the flag is clear, so
  \<^verbatim>\<open>has_varargs\<close> and \<^verbatim>\<open>has_varkw\<close> are the tests for \<open>Some\<close>.
\<close>

definition declare_collector ::
  "bool \<Rightarrow> string list \<Rightarrow> int \<Rightarrow> val \<Rightarrow> (string \<times> val) list
   \<Rightarrow> (string option \<times> int \<times> (string \<times> val) list) result" where
  "declare_collector has names shift init parsed_args =
     (if has then
        (case py_index names shift of
           Inl e \<Rightarrow> Inl e
         | Inr nm \<Rightarrow> Inr (Some nm, shift + 1, dict_set parsed_args nm init))
      else Inr (None, shift, parsed_args))"

definition bind_overflow ::
  "nat \<Rightarrow> string option \<Rightarrow> val list \<Rightarrow> (string \<times> val) list \<Rightarrow> (string \<times> val) list result" where
  "bind_overflow arg_count vararg_name args parsed_args =
     (if length args > arg_count then
        (case vararg_name of
           None \<Rightarrow> Inl (TypeError ERR_TOO_MANY_POS_ARGS)
         | Some nm \<Rightarrow> Inr (dict_set parsed_args nm (VTuple (drop arg_count args))))
      else Inr parsed_args)"

fun bind_kw_defaults ::
  "string list \<Rightarrow> (string \<times> val) list \<Rightarrow> (string \<times> val) list \<Rightarrow> (string \<times> val) list result" where
  "bind_kw_defaults names [] parsed_args = Inr parsed_args"
| "bind_kw_defaults names ((key, v) # rest) parsed_args =
     (if key \<notin> set names then Inl (TypeError ERR_TOO_MANY_KW_ARGS)
      else bind_kw_defaults names rest (dict_set parsed_args key v))"

fun bind_kwargs ::
  "string list \<Rightarrow> nat \<Rightarrow> string option \<Rightarrow> (string \<times> val) list \<Rightarrow> (string \<times> val) list
   \<Rightarrow> (string \<times> val) list result" where
  "bind_kwargs names pos_only_count varkw_name [] parsed_args = Inr parsed_args"
| "bind_kwargs names pos_only_count varkw_name ((key, v) # rest) parsed_args =
     (if key \<notin> set names then
        (case varkw_name of
           None \<Rightarrow> Inl (TypeError ERR_TOO_MANY_KW_ARGS)
         | Some nm \<Rightarrow>
             (case collect_kw parsed_args nm key v of
                Inl e \<Rightarrow> Inl e
              | Inr p \<Rightarrow> bind_kwargs names pos_only_count varkw_name rest p))
      else if index_of names key < pos_only_count then
        (case varkw_name of
           None \<Rightarrow> Inl (TypeError ERR_POSONLY_PASSED_AS_KW)
         | Some nm \<Rightarrow>
             (case collect_kw parsed_args nm key v of
                Inl e \<Rightarrow> Inl e
              | Inr p \<Rightarrow> bind_kwargs names pos_only_count varkw_name rest p))
      else bind_kwargs names pos_only_count varkw_name rest (dict_set parsed_args key v))"

text \<open>
  The loop over \<^verbatim>\<open>enumerate(args)\<close>: \<open>n\<close> is \<^verbatim>\<open>len(args)\<close>, \<open>i\<close> the running
  index. With a positional collector the loop breaks where the collected overflow
  starts.
\<close>

definition overflow_starts ::
  "string option \<Rightarrow> nat \<Rightarrow> nat \<Rightarrow> (string \<times> val) list \<Rightarrow> bool result" where
  "overflow_starts vararg_name n i parsed_args =
     (case vararg_name of
        None \<Rightarrow> Inr False
      | Some nm \<Rightarrow>
          (case map_of parsed_args nm of
             None \<Rightarrow> Inl KeyError
           | Some c \<Rightarrow>
               (case py_len c of
                  Inl e \<Rightarrow> Inl e
                | Inr l \<Rightarrow> Inr (int i \<ge> int n - int l))))"

fun bind_positional ::
  "string list \<Rightarrow> string option \<Rightarrow> nat \<Rightarrow> nat \<Rightarrow> val list \<Rightarrow> (string \<times> val) list
   \<Rightarrow> (string \<times> val) list result" where
  "bind_positional names vararg_name n i [] parsed_args = Inr parsed_args"
| "bind_positional names vararg_name n i (arg_val # rest) parsed_args =
     (case overflow_starts vararg_name n i parsed_args of
        Inl e \<Rightarrow> Inl e
      | Inr stop \<Rightarrow>
          (if stop then Inr parsed_args
           else
             (case py_index names (int i) of
                Inl e \<Rightarrow> Inl e
              | Inr nm \<Rightarrow>
                  (if has_key parsed_args nm then Inl (TypeError ERR_MULT_VALUES_FOR_ARG)
                   else bind_positional names vararg_name n (Suc i) rest
                          (dict_set parsed_args nm arg_val)))))"

text \<open>The loop over \<^verbatim>\<open>range(len(args), arg_count)\<close>, given the list of its indices.\<close>

fun bind_defaults ::
  "string list \<Rightarrow> (string \<times> val) list \<Rightarrow> nat \<Rightarrow> val list \<Rightarrow> nat list \<Rightarrow> (string \<times> val) list
   \<Rightarrow> (string \<times> val) list result" where
  "bind_defaults names kwargs arg_count default_values [] parsed_args = Inr parsed_args"
| "bind_defaults names kwargs arg_count default_values (i # rest) parsed_args =
     (case py_index names (int i) of
        Inl e \<Rightarrow> Inl e
      | Inr nm \<Rightarrow>
          (if has_key kwargs nm
           then bind_defaults names kwargs arg_count default_values rest parsed_args
           else
             (if int i - int arg_count + int (length default_values) < 0
                 \<or> int i - int arg_count + int (length default_values)
                      \<ge> int (length default_values)
              then Inl (TypeError ERR_MISSING_POS_ARGS)
              else bind_defaults names kwargs arg_count default_values rest
                     (dict_set parsed_args nm
                        (default_values
                           ! nat (int i - int arg_count + int (length default_values)))))))"

text \<open>The two closing loops: every index of the range must name a bound parameter.\<close>

fun check_bound ::
  "string list \<Rightarrow> string \<Rightarrow> nat list \<Rightarrow> (string \<times> val) list \<Rightarrow> unit result" where
  "check_bound names msg [] parsed_args = Inr ()"
| "check_bound names msg (i # rest) parsed_args =
     (case py_index names (int i) of
        Inl e \<Rightarrow> Inl e
      | Inr nm \<Rightarrow>
          (if \<not> has_key parsed_args nm then Inl (TypeError msg)
           else check_bound names msg rest parsed_args))"

definition bind_args ::
  "code_obj \<Rightarrow> val list \<Rightarrow> (string \<times> val) list \<Rightarrow> val list \<Rightarrow> (string \<times> val) list
   \<Rightarrow> (string \<times> val) list result" where
  "bind_args c args_default kwargs_default args kwargs =
     (case declare_collector (co_flags c AND 4 \<noteq> 0) (co_varnames c)
             (int (co_argcount c) + int (co_kwonlyargcount c) - int (co_nlocals c))
             (VTuple []) [] of
        Inl e \<Rightarrow> Inl e
      | Inr (vararg_name, shift, p1) \<Rightarrow>
     (case declare_collector (co_flags c AND 8 \<noteq> 0) (co_varnames c) shift (VDict []) p1 of
        Inl e \<Rightarrow> Inl e
      | Inr (varkw_name, _, p2) \<Rightarrow>
     (case bind_overflow (co_argcount c) vararg_name args p2 of
        Inl e \<Rightarrow> Inl e
      | Inr p3 \<Rightarrow>
     (case bind_kw_defaults (co_varnames c) kwargs_default p3 of
        Inl e \<Rightarrow> Inl e
      | Inr p4 \<Rightarrow>
     (case bind_kwargs (co_varnames c) (co_posonlyargcount c) varkw_name kwargs p4 of
        Inl e \<Rightarrow> Inl e
      | Inr p5 \<Rightarrow>
     (case bind_positional (co_varnames c) vararg_name (length args) 0 args p5 of
        Inl e \<Rightarrow> Inl e
      | Inr p6 \<Rightarrow>
     (case bind_defaults (co_varnames c) kwargs (co_argcount c) args_default
             [length args ..< co_argcount c] p6 of
        Inl e \<Rightarrow> Inl e
      | Inr p7 \<Rightarrow>
     (case check_bound (co_varnames c) ERR_MISSING_POS_ARGS [0 ..< co_posonlyargcount c] p7 of
        Inl e \<Rightarrow> Inl e
      | Inr _ \<Rightarrow>
     (case check_bound (co_varnames c) ERR_MISSING_KWONLY_ARGS
             [co_argcount c ..< co_argcount c + co_kwonlyargcount c] p7 of
        Inl e \<Rightarrow> Inl e
      | Inr _ \<Rightarrow> Inr p7)))))))))"

section \<open>Notions used to state the properties\<close>

text \<open>The handlers that can redirect the instruction pointer, each applied to a target.\<close>

definition jump_handlers :: "runtime \<Rightarrow> (int \<Rightarrow> frame \<Rightarrow> frame result) list" where
  "jump_handlers rt =
     [jump_forward_op, jump_backward_op, for_iter_op rt,
      pop_jump_forward_if_true_op rt, pop_jump_forward_if_false_op rt,
      pop_jump_backward_if_true_op rt, pop_jump_backward_if_false_op rt,
      jump_if_true_or_pop_op rt, jump_if_false_or_pop_op rt,
      pop_jump_forward_if_none_op]"

text \<open>
  A loop body that is driven by the \<^verbatim>\<open>FOR_ITER\<close> at position \<open>p\<close> over the iterator
  \<open>a\<close>: entered at \<open>p + 1\<close> with the produced value on top of the iterator, it comes
  back to \<open>p\<close> after some passes of the dispatch loop, having consumed the value, left
  the iterator and the stack below it alone, and fetched \<open>p + 1\<close> once and \<open>p\<close> not
  at all on the way.
\<close>

definition body_returns :: "runtime \<Rightarrow> code_obj \<Rightarrow> (int \<rightharpoonup> int) \<Rightarrow> int \<Rightarrow> nat \<Rightarrow> bool" where
  "body_returns rt c idx p a \<longleftrightarrow>
     (\<forall>fr s v. code fr = c \<and> index fr = idx \<and> counter fr = p + 1
         \<and> data_stack fr = s @ [VIter a, v] \<longrightarrow>
       (\<exists>m fr'. passes rt m fr = Inr (Continue fr')
          \<and> code fr' = c \<and> index fr' = idx \<and> counter fr' = p
          \<and> data_stack fr' = s @ [VIter a] \<and> heap fr' a = heap fr a
          \<and> fetches rt m fr (p + 1) = 1 \<and> fetches rt m fr p = 0))"

text \<open>
  The call instruction as the specification words it, for comparison with \<open>call_op\<close>:
  the value popped after the arguments is the callable in both branches, and a value
  found below it that is not the null marker is its receiver.
\<close>

definition claimed_call_op :: "runtime \<Rightarrow> int \<Rightarrow> frame \<Rightarrow> frame result" where
  "claimed_call_op rt argc fr =
     (case popn argc fr of (all_args, fr1) \<Rightarrow>
        (case (if kw_names fr1 \<noteq> []
               then (slice_to all_args (int (length all_args) - int (length (kw_names fr1))),
                     dict_of [] (zip (kw_names fr1)
                                     (slice_from all_args (- int (length (kw_names fr1))))))
               else (all_args, []))
         of (args, kwargs) \<Rightarrow>
           (case pop fr1 of
              Inl e \<Rightarrow> Inl e
            | Inr (callable, fr2) \<Rightarrow>
                (case pop fr2 of
                   Inl e \<Rightarrow> Inl e
                 | Inr (below, fr3) \<Rightarrow>
                     (case rt_call rt callable
                             (if below = VNone then args else below # args) kwargs (heap fr3) of
                        Inl e \<Rightarrow> Inl e
                      | Inr (r, h) \<Rightarrow> Inr (push r (fr3\<lparr>heap := h\<rparr>)))))))"

section \<open>A sample runtime and sample inputs\<close>

text \<open>
  A small object runtime for concrete runs. Calling an object returns a record of the
  call: the callee, the positional arguments and the keyword arguments. Its only
  operator is addition, on \<^verbatim>\<open>int\<close> (with \<^verbatim>\<open>bool\<close>) and on \<^verbatim>\<open>str\<close>, as Python
  defines it there: \<^verbatim>\<open>int.__add__\<close> returns \<^verbatim>\<open>NotImplemented\<close> for an operand
  that is not an \<^verbatim>\<open>int\<close>, and the operator \<^verbatim>\<open>+\<close> raises TypeError when no
  operand's method accepts the other. Values of other shapes support no operator in
  this runtime.
\<close>

definition sample_call :: "val \<Rightarrow> val list \<Rightarrow> (string \<times> val) list \<Rightarrow> heap \<Rightarrow> (val \<times> heap) result" where
  "sample_call f args kwargs h = Inr (VTuple [f, VTuple args, VDict kwargs], h)"

definition as_int :: "val \<Rightarrow> int option" where
  "as_int v =
     (case v of
        VInt a \<Rightarrow> Some a
      | VBool b \<Rightarrow> Some (if b then 1 else 0)
      | _ \<Rightarrow> None)"

definition sample_operator :: "binop \<Rightarrow> val \<Rightarrow> val \<Rightarrow> heap \<Rightarrow> (val \<times> heap) result" where
  "sample_operator op x y h =
     (if op = Add then
        (case (as_int x, as_int y) of
           (Some a, Some b) \<Rightarrow> Inr (VInt (a + b), h)
         | _ \<Rightarrow>
             (case x of
                VStr a \<Rightarrow>
                  (case y of
                     VStr b \<Rightarrow> Inr (VStr (a @ b), h)
                   | _ \<Rightarrow> Inl (TypeError ''can only concatenate str''))
              | _ \<Rightarrow> Inl (TypeError ''unsupported operand type(s)'')))
      else Inl (TypeError ''unsupported operand type(s)''))"

definition sample_method :: "binop \<Rightarrow> val \<Rightarrow> val \<Rightarrow> heap \<Rightarrow> (val \<times> heap) result" where
  "sample_method op x y h =
     (if op = Add then
        (case as_int x of
           Some a \<Rightarrow>
             (case as_int y of
                Some b \<Rightarrow> Inr (VInt (a + b), h)
              | None \<Rightarrow> Inr (VNotImplemented, h))
         | None \<Rightarrow>
             (case x of
                VStr a \<Rightarrow>
                  (case y of
                     VStr b \<Rightarrow> Inr (VStr (a @ b), h)
                   | _ \<Rightarrow> Inl (TypeError ''can only concatenate str''))
              | _ \<Rightarrow> Inl AttributeError))
      else Inl AttributeError)"

fun sample_truth :: "val \<Rightarrow> bool" where
  "sample_truth VNone = False"
| "sample_truth (VBool b) = b"
| "sample_truth (VInt i) = (i \<noteq> 0)"
| "sample_truth (VStr s) = (s \<noteq> [])"
| "sample_truth (VTuple xs) = (xs \<noteq> [])"
| "sample_truth (VList xs) = (xs \<noteq> [])"
| "sample_truth (VDict d) = (d \<noteq> [])"
| "sample_truth _ = True"

text \<open>
  \<^verbatim>\<open>getattr(obj, name)\<close> in the sample runtime: the class \<^verbatim>\<open>str\<close> has the attribute
  \<^verbatim>\<open>upper\<close>, an opaque object has the attribute \<^verbatim>\<open>x\<close>, and there are no others.
\<close>

definition sample_getattr :: "val \<Rightarrow> string \<Rightarrow> heap \<Rightarrow> (val \<times> heap) result" where
  "sample_getattr v namei h =
     (case v of
        VObj n \<Rightarrow> (if namei = ''x'' then Inr (VInt (int n), h) else Inl AttributeError)
      | VClass c \<Rightarrow>
          (if c = ''str'' \<and> namei = ''upper'' then Inr (VObj 0, h) else Inl AttributeError)
      | _ \<Rightarrow> Inl AttributeError)"

text \<open>
  \<^verbatim>\<open>obj.__getattribute__(name)\<close> in the sample runtime. On an instance it is the
  lookup above. On a class object, \<^verbatim>\<open>cls.__getattribute__\<close> is the function
  \<^verbatim>\<open>object.__getattribute__\<close> bound to no object, so the call passes the name where
  the object is expected and no name at all: Python raises TypeError, whether the class
  has the attribute or not.
\<close>

definition sample_getattribute :: "val \<Rightarrow> string \<Rightarrow> heap \<Rightarrow> (val \<times> heap) result" where
  "sample_getattribute v namei h =
     (case v of
        VClass c \<Rightarrow> Inl (TypeError ''expected 1 argument, got 0'')
      | _ \<Rightarrow> sample_getattr v namei h)"

definition sample_rt :: runtime where
  "sample_rt =
     \<lparr>rt_call = sample_call,
      rt_operator = sample_operator,
      rt_method = sample_method,
      rt_bool = (\<lambda>v h. Inr (sample_truth v, h)),
      rt_str = (\<lambda>v h. Inr (VTuple [VStr ''str'', v], h)),
      rt_repr = (\<lambda>v h. Inr (VTuple [VStr ''repr'', v], h)),
      rt_ascii = (\<lambda>v h. Inr (VTuple [VStr ''ascii'', v], h)),
      rt_getattribute = sample_getattribute,
      rt_getattr = sample_getattr,
      rt_set = (\<lambda>vs h. Inl (TypeError ''unhashable'')),
      rt_next = (\<lambda>v h. Inl StopIteration)\<rparr>"

text \<open>The code object of \<^verbatim>\<open>def f(a, b=10): pass\<close>, whose captured defaults are \<^verbatim>\<open>(10,)\<close>.\<close>

definition code_f :: code_obj where
  "code_f =
     \<lparr>co_varnames = [''a'', ''b''], co_argcount = 2, co_posonlyargcount = 0,
      co_kwonlyargcount = 0, co_nlocals = 2, co_flags = 3, co_consts = [VNone],
      co_instrs = []\<rparr>"

text \<open>
  The code object of \<^verbatim>\<open>def f(a, b=10): c = a + b\<close>: the same declared shape and the
  same defaults, with a body that has the local variable \<^verbatim>\<open>c\<close>.
\<close>

definition code_fc :: code_obj where
  "code_fc =
     \<lparr>co_varnames = [''a'', ''b'', ''c''], co_argcount = 2, co_posonlyargcount = 0,
      co_kwonlyargcount = 0, co_nlocals = 3, co_flags = 3, co_consts = [VNone],
      co_instrs = []\<rparr>"

text \<open>The code object of \<^verbatim>\<open>def g(a): x = a\<close>: one parameter and one further local.\<close>

definition code_g :: code_obj where
  "code_g =
     \<lparr>co_varnames = [''a'', ''x''], co_argcount = 1, co_posonlyargcount = 0,
      co_kwonlyargcount = 0, co_nlocals = 2, co_flags = 3, co_consts = [VNone],
      co_instrs = []\<rparr>"

text \<open>
  The code object of \<^verbatim>\<open>def gk(a, **kw): x = a\<close>: the same with a keyword collector
  (flag 8), whose name follows the parameter in \<^verbatim>\<open>co_varnames\<close>.
\<close>

definition code_gk :: code_obj where
  "code_gk =
     \<lparr>co_varnames = [''a'', ''kw'', ''x''], co_argcount = 1, co_posonlyargcount = 0,
      co_kwonlyargcount = 0, co_nlocals = 3, co_flags = 11, co_consts = [VNone],
      co_instrs = []\<rparr>"

text \<open>
  A loop over an iterator that discards each item, followed by \<^verbatim>\<open>return None\<close>:
  the exit of the loop is the instruction at offset 6.
\<close>

definition code_loop :: code_obj where
  "code_loop =
     \<lparr>co_varnames = [], co_argcount = 0, co_posonlyargcount = 0,
      co_kwonlyargcount = 0, co_nlocals = 0, co_flags = 3,
      co_consts = [VNone, VTuple [VStr ''k'']],
      co_instrs =
        [\<lparr>offset = 0, ins = FOR_ITER 6\<rparr>,
         \<lparr>offset = 2, ins = POP_TOP\<rparr>,
         \<lparr>offset = 4, ins = JUMP_BACKWARD 0\<rparr>,
         \<lparr>offset = 6, ins = LOAD_CONST VNone\<rparr>,
         \<lparr>offset = 8, ins = RETURN_VALUE\<rparr>]\<rparr>"

text \<open>Two instructions and no \<^verbatim>\<open>RETURN_VALUE\<close>: the loop runs off the end of the stream.\<close>

definition code_no_return :: code_obj where
  "code_no_return =
     \<lparr>co_varnames = [], co_argcount = 0, co_posonlyargcount = 0,
      co_kwonlyargcount = 0, co_nlocals = 0, co_flags = 3, co_consts = [VInt 1],
      co_instrs =
        [\<lparr>offset = 0, ins = LOAD_CONST (VInt 1)\<rparr>,
         \<lparr>offset = 2, ins = POP_TOP\<rparr>]\<rparr>"

text \<open>
  A branch: the constant \<^verbatim>\<open>False\<close> is tested by a conditional jump to offset 6, which
  skips the instruction at offset 4; the code returns 2.
\<close>

definition code_branch :: code_obj where
  "code_branch =
     \<lparr>co_varnames = [], co_argcount = 0, co_posonlyargcount = 0,
      co_kwonlyargcount = 0, co_nlocals = 0, co_flags = 3,
      co_consts = [VBool False, VInt 1, VInt 2],
      co_instrs =
        [\<lparr>offset = 0, ins = LOAD_CONST (VBool False)\<rparr>,
         \<lparr>offset = 2, ins = POP_JUMP_FORWARD_IF_FALSE 6\<rparr>,
         \<lparr>offset = 4, ins = LOAD_CONST (VInt 1)\<rparr>,
         \<lparr>offset = 6, ins = LOAD_CONST (VInt 2)\<rparr>,
         \<lparr>offset = 8, ins = RETURN_VALUE\<rparr>]\<rparr>"

definition no_iters :: heap where
  "no_iters = (\<lambda>_. [])"

text \<open>A frame of \<open>code_loop\<close> with a given stack, its Offset Index built as \<^verbatim>\<open>run\<close> does.\<close>

definition sample_frame :: "val list \<Rightarrow> heap \<Rightarrow> frame" where
  "sample_frame st h =
     (new_frame code_loop h)
       \<lparr>data_stack := st, index := build_index (co_instrs code_loop) 0 Map.empty\<rparr>"

text \<open>A frame of \<open>code_branch\<close> with a given stack and instruction pointer.\<close>

definition branch_frame :: "val list \<Rightarrow> int \<Rightarrow> frame" where
  "branch_frame st pc =
     (new_frame code_branch no_iters)
       \<lparr>data_stack := st, index := build_index (co_instrs code_branch) 0 Map.empty,
        counter := pc\<rparr>"

section \<open>Auxiliary facts about the stack primitives\<close>

lemma frame_stack_same: "data_stack fr = xs \<Longrightarrow> fr\<lparr>data_stack := xs\<rparr> = fr"
  by auto

lemma popn_append:
  assumes "data_stack fr = xs @ ys" and "n = int (length ys)"
  shows "popn n fr = (ys, fr\<lparr>data_stack := xs\<rparr>)"
proof (cases "ys = []")
  case True
  with assms show ?thesis by (simp add: popn_def frame_stack_same)
next
  case False
  then have "0 < length ys" by simp
  with assms show ?thesis by (simp add: popn_def slice_from_def slice_to_def)
qed

lemma pop_upd_snoc: "pop (fr\<lparr>data_stack := xs @ [x]\<rparr>) = Inr (x, fr\<lparr>data_stack := xs\<rparr>)"
  by (simp add: pop_def)

lemma pop_upd_snoc2:
  "pop (fr\<lparr>data_stack := xs @ [y, x]\<rparr>) = Inr (x, fr\<lparr>data_stack := xs @ [y]\<rparr>)"
  by (simp add: pop_def butlast_append)

lemma top_upd_snoc: "top_stack (fr\<lparr>data_stack := xs @ [x]\<rparr>) = Inr x"
  by (simp add: top_stack_def)

lemmas sample_frame_defs = sample_frame_def new_frame_def code_loop_def

lemmas stack_defs = popn_def pop_def top_stack_def push_def slice_from_def slice_to_def

lemmas bind_defs =
  bind_args_def declare_collector_def bind_overflow_def overflow_starts_def py_index_def
  has_key_def collect_kw_def py_len_def upt_conv_Cons

section \<open>What the handlers leave alone\<close>

text \<open>
  No handler writes the code object or the Offset Index, and only \<^verbatim>\<open>return_value_op\<close>
  writes the return-value slot.
\<close>

lemma pop_keeps:
  "pop fr = Inr (v, fr1) \<Longrightarrow>
     code fr1 = code fr \<and> index fr1 = index fr \<and> return_value fr1 = return_value fr
     \<and> counter fr1 = counter fr \<and> heap fr1 = heap fr \<and> kw_names fr1 = kw_names fr"
  by (auto simp: pop_def split: if_splits)

lemma popn_keeps:
  "popn n fr = (vs, fr1) \<Longrightarrow>
     code fr1 = code fr \<and> index fr1 = index fr \<and> return_value fr1 = return_value fr
     \<and> counter fr1 = counter fr \<and> heap fr1 = heap fr \<and> kw_names fr1 = kw_names fr"
  by (auto simp: popn_def split: if_splits)

lemma push_keeps [simp]:
  "code (push v fr) = code fr" "index (push v fr) = index fr"
  "return_value (push v fr) = return_value fr" "counter (push v fr) = counter fr"
  by (simp_all add: push_def)

lemma jump_forward_keeps:
  "jump_forward_op to fr = Inr fr1 \<Longrightarrow>
     code fr1 = code fr \<and> index fr1 = index fr \<and> return_value fr1 = return_value fr"
  by (auto simp: jump_forward_op_def split: option.splits)

lemma call_keeps:
  "call_op rt argc fr = Inr fr1 \<Longrightarrow>
     code fr1 = code fr \<and> index fr1 = index fr \<and> return_value fr1 = return_value fr"
  unfolding call_op_def
  by (auto split: prod.splits sum.splits if_splits dest!: pop_keeps popn_keeps)


lemma dispatch_keeps:
  assumes "dispatch rt i fr = Inr fr1" and "i \<noteq> RETURN_VALUE"
  shows "code fr1 = code fr \<and> index fr1 = index fr \<and> return_value fr1 = return_value fr"
proof (cases i)
  case (CALL argc)
  with assms show ?thesis by (auto dest: call_keeps)
next
  case (KW_NAMES c)
  with assms show ?thesis
    by (auto simp: kw_names_op_def split: sum.splits val.splits option.splits)
next
  case (BINARY_OP op)
  with assms show ?thesis
    by (auto simp: binary_op_op_def split: sum.splits prod.splits option.splits
        dest!: pop_keeps)
next
  case (FOR_ITER to)
  with assms show ?thesis
    by (auto simp: for_iter_op_def split: sum.splits prod.splits if_splits
        dest!: pop_keeps jump_forward_keeps)
next
  case (POP_JUMP_FORWARD_IF_TRUE to)
  with assms show ?thesis
    by (auto simp: pop_jump_forward_if_true_op_def split: sum.splits prod.splits if_splits
        dest!: pop_keeps jump_forward_keeps)
next
  case (POP_JUMP_FORWARD_IF_FALSE to)
  with assms show ?thesis
    by (auto simp: pop_jump_forward_if_false_op_def split: sum.splits prod.splits if_splits
        dest!: pop_keeps jump_forward_keeps)
next
  case (POP_JUMP_BACKWARD_IF_TRUE to)
  with assms show ?thesis
    by (auto simp: pop_jump_backward_if_true_op_def split: sum.splits prod.splits if_splits
        dest!: pop_keeps jump_forward_keeps)
next
  case (POP_JUMP_BACKWARD_IF_FALSE to)
  with assms show ?thesis
    by (auto simp: pop_jump_backward_if_false_op_def split: sum.splits prod.splits if_splits
        dest!: pop_keeps jump_forward_keeps)
next
  case (JUMP_IF_TRUE_OR_POP to)
  with assms show ?thesis
    by (auto simp: jump_if_true_or_pop_op_def split: sum.splits prod.splits if_splits
        dest!: pop_keeps jump_forward_keeps)
next
  case (JUMP_IF_FALSE_OR_POP to)
  with assms show ?thesis
    by (auto simp: jump_if_false_or_pop_op_def split: sum.splits prod.splits if_splits
        dest!: pop_keeps jump_forward_keeps)
next
  case (POP_JUMP_FORWARD_IF_NONE to)
  with assms show ?thesis
    by (auto simp: pop_jump_forward_if_none_op_def split: sum.splits prod.splits if_splits
        dest!: pop_keeps jump_forward_keeps)
next
  case (BUILD_SET n)
  with assms show ?thesis
    by (auto simp: build_set_op_def split: sum.splits prod.splits dest!: popn_keeps)
next
  case (FORMAT_VALUE flags)
  with assms show ?thesis
    by (auto simp: format_value_op_def split: sum.splits prod.splits if_splits
        dest!: pop_keeps)
next
  case (LOAD_METHOD namei)
  with assms show ?thesis
    by (auto simp: load_method_op_def split: sum.splits prod.splits dest!: pop_keeps)
next
  case (LOAD_ATTR namei)
  with assms show ?thesis
    by (auto simp: load_attr_op_def split: sum.splits prod.splits dest!: pop_keeps)
qed (use assms in \<open>auto simp: pop_top_op_def jump_forward_op_def jump_backward_op_def
      build_list_op_def build_tuple_op_def
      split: sum.splits prod.splits option.splits dest!: pop_keeps popn_keeps\<close>)

lemma loop_body_keeps:
  assumes "loop_body rt fr = Inr (Continue fr1)"
  shows "code fr1 = code fr \<and> index fr1 = index fr \<and> return_value fr1 = return_value fr"
  using assms
  by (auto simp: loop_body_def split: if_splits sum.splits dest!: dispatch_keeps)

lemma passes_keeps:
  "passes rt n fr = Inr (Continue fr1) \<Longrightarrow>
     code fr1 = code fr \<and> index fr1 = index fr \<and> return_value fr1 = return_value fr"
proof (induction n arbitrary: fr)
  case 0
  then show ?case by simp
next
  case (Suc n)
  from Suc.prems obtain fr0 where b: "loop_body rt fr = Inr (Continue fr0)"
    and p: "passes rt n fr0 = Inr (Continue fr1)"
    by (auto split: sum.splits status.splits)
  from Suc.IH [OF p] loop_body_keeps [OF b] show ?case by simp
qed

lemma run_loop_finish:
  "int (length (co_instrs (code fr))) \<le> counter fr \<Longrightarrow>
     run_loop rt fr = Some (Inr (return_value fr))"
  by (subst run_loop.simps) (simp add: loop_body_def)

lemma run_loop_passes:
  "passes rt n fr = Inr (Continue fr1) \<Longrightarrow> run_loop rt fr = run_loop rt fr1"
proof (induction n arbitrary: fr)
  case 0
  then show ?case by simp
next
  case (Suc n)
  from Suc.prems obtain fr0 where b: "loop_body rt fr = Inr (Continue fr0)"
    and p: "passes rt n fr0 = Inr (Continue fr1)"
    by (auto split: sum.splits status.splits)
  have "run_loop rt fr = run_loop rt fr0"
    by (subst run_loop.simps) (simp add: b)
  with Suc.IH [OF p] show ?case by simp
qed

lemma build_index_result:
  "build_index xs k m to = Some i \<Longrightarrow>
     (to \<notin> offset ` set xs \<and> m to = Some i)
     \<or> (k \<le> i \<and> i < k + int (length xs) \<and> offset (xs ! nat (i - k)) = to)"
proof (induction xs arbitrary: k m)
  case Nil
  then show ?case by simp
next
  case (Cons x xs)
  from Cons.prems have "build_index xs (k + 1) (m(offset x \<mapsto> k)) to = Some i" by simp
  from Cons.IH [OF this] show ?case
  proof
    assume a: "to \<notin> offset ` set xs \<and> (m(offset x \<mapsto> k)) to = Some i"
    show ?thesis
    proof (cases "offset x = to")
      case True
      with a have "i = k" by simp
      with True show ?thesis by simp
    next
      case False
      with a show ?thesis by simp
    qed
  next
    assume a: "k + 1 \<le> i \<and> i < k + 1 + int (length xs) \<and> offset (xs ! nat (i - (k + 1))) = to"
    then have "nat (i - k) = Suc (nat (i - (k + 1)))" by arith
    with a show ?thesis by simp
  qed
qed

lemma jump_handlers_counter:
  assumes "h \<in> set (jump_handlers rt)" and "h to fr = Inr fr1"
  shows "counter fr1 = counter fr \<or> (\<exists>i. index fr to = Some i \<and> counter fr1 = i - 1)"
  using assms
  by (auto simp: jump_handlers_def jump_forward_op_def jump_backward_op_def for_iter_op_def
      pop_jump_forward_if_true_op_def pop_jump_forward_if_false_op_def
      pop_jump_backward_if_true_op_def pop_jump_backward_if_false_op_def
      jump_if_true_or_pop_op_def jump_if_false_or_pop_op_def pop_jump_forward_if_none_op_def
      pop_def top_stack_def push_def
      split: sum.splits prod.splits option.splits if_splits)

section \<open>Passes of the dispatch loop\<close>

lemma run_falls_off_end:
  assumes "passes rt n ((new_frame c hp)\<lparr>index := build_index (co_instrs c) 0 Map.empty\<rparr>)
             = Inr (Continue fr1)"
    and "int (length (co_instrs c)) \<le> counter fr1"
  shows "run rt (new_frame c hp) = Some (Inr VNone)"
proof -
  let ?fr0 = "(new_frame c hp)\<lparr>index := build_index (co_instrs c) 0 Map.empty\<rparr>"
  have run: "run rt (new_frame c hp) = run_loop rt ?fr0"
    by (simp add: run_def new_frame_def)
  from passes_keeps [OF assms(1)]
  have k: "code fr1 = c" "return_value fr1 = VNone"
    by (simp_all add: new_frame_def)
  with assms(2) have "run_loop rt fr1 = Some (Inr VNone)"
    using run_loop_finish [of fr1 rt] by simp
  with run run_loop_passes [OF assms(1)] show ?thesis by simp
qed

lemma jump_lands_on_target:
  assumes idx: "index fr = build_index (co_instrs (code fr)) 0 Map.empty"
    and tgt: "index fr to = Some i"
    and lt: "counter fr < int (length (co_instrs (code fr)))"
    and fetch: "py_index (co_instrs (code fr)) (counter fr) = Inr x"
    and nr: "ins x \<noteq> RETURN_VALUE"
    and d: "dispatch rt (ins x) fr = Inr fr1"
    and c1: "counter fr1 = i - 1"
  shows "\<exists>fr2 y. loop_body rt fr = Inr (Continue fr2) \<and> counter fr2 = i
           \<and> py_index (co_instrs (code fr2)) (counter fr2) = Inr y \<and> offset y = to"
proof -
  let ?is = "co_instrs (code fr)"
  from tgt idx have "build_index ?is 0 Map.empty to = Some i" by simp
  from build_index_result [OF this]
  have i: "0 \<le> i" "i < int (length ?is)" "offset (?is ! nat i) = to" by simp_all
  let ?fr2 = "fr1\<lparr>counter := counter fr1 + 1\<rparr>"
  from lt fetch nr d have "loop_body rt fr = Inr (Continue ?fr2)"
    by (simp add: loop_body_def)
  moreover from c1 have "counter ?fr2 = i" by simp
  moreover from dispatch_keeps [OF d nr] have "code ?fr2 = code fr" by simp
  with i c1 have "py_index (co_instrs (code ?fr2)) (counter ?fr2) = Inr (?is ! nat i)"
    by (simp add: py_index_def)
  ultimately show ?thesis using i(3) by blast
qed

lemma passes_add:
  "passes rt m fr = Inr (Continue fr1) \<Longrightarrow> passes rt (m + n) fr = passes rt n fr1"
proof (induction m arbitrary: fr)
  case 0
  then show ?case by simp
next
  case (Suc m)
  from Suc.prems obtain fr0 where b: "loop_body rt fr = Inr (Continue fr0)"
    and p: "passes rt m fr0 = Inr (Continue fr1)"
    by (auto split: sum.splits status.splits)
  from Suc.IH [OF p] b show ?case by simp
qed

lemma fetches_add:
  "passes rt m fr = Inr (Continue fr1) \<Longrightarrow>
     fetches rt (m + n) fr c = fetches rt m fr c + fetches rt n fr1 c"
proof (induction m arbitrary: fr)
  case 0
  then show ?case by simp
next
  case (Suc m)
  from Suc.prems obtain fr0 where b: "loop_body rt fr = Inr (Continue fr0)"
    and p: "passes rt m fr0 = Inr (Continue fr1)"
    by (auto split: sum.splits status.splits)
  from Suc.IH [OF p] b show ?case by simp
qed

lemma for_iter_produces:
  assumes "data_stack fr = s @ [VIter a]" and "heap fr a = v # rest"
  shows "for_iter_op rt to fr
           = Inr (fr\<lparr>data_stack := s @ [VIter a, v], heap := (heap fr)(a := rest)\<rparr>)"
  using assms by (simp add: for_iter_op_def top_stack_def py_next_def push_def)

lemma for_iter_exhausted:
  assumes "data_stack fr = s @ [VIter a]" and "heap fr a = []" and "index fr to = Some e"
  shows "for_iter_op rt to fr = Inr (fr\<lparr>data_stack := s, counter := e - 1\<rparr>)"
  using assms
  by (simp add: for_iter_op_def top_stack_def py_next_def pop_def jump_forward_op_def)

lemma for_iter_loop_runs:
  assumes p0: "0 \<le> p"
    and fetch: "py_index (co_instrs c) p = Inr x"
    and x: "ins x = FOR_ITER to"
    and tgt: "idx to = Some e"
    and body: "body_returns rt c idx p a"
  shows "code fr = c \<Longrightarrow> index fr = idx \<Longrightarrow> counter fr = p
     \<Longrightarrow> data_stack fr = s @ [VIter a] \<Longrightarrow> heap fr a = xs
     \<Longrightarrow> \<exists>n fr'. passes rt n fr = Inr (Continue fr') \<and> counter fr' = e
           \<and> data_stack fr' = s \<and> heap fr' a = []
           \<and> fetches rt n fr (p + 1) = length xs \<and> fetches rt n fr p = length xs + 1"
proof (induction xs arbitrary: fr)
  case Nil
  from fetch p0 have lt: "p < int (length (co_instrs c))"
    by (simp add: py_index_def split: if_splits)
  let ?fr1 = "fr\<lparr>data_stack := s, counter := e\<rparr>"
  from Nil.prems tgt have "for_iter_op rt to fr = Inr (fr\<lparr>data_stack := s, counter := e - 1\<rparr>)"
    by (simp add: for_iter_exhausted)
  with Nil.prems lt fetch x have b: "loop_body rt fr = Inr (Continue ?fr1)"
    by (simp add: loop_body_def)
  then have "passes rt (Suc 0) fr = Inr (Continue ?fr1)" by simp
  moreover from b Nil.prems lt have "fetches rt (Suc 0) fr (p + 1) = 0"
    and "fetches rt (Suc 0) fr p = 1" by simp_all
  moreover from Nil.prems have "heap ?fr1 a = []" by simp
  ultimately show ?case
    by (intro exI [of _ "Suc 0"] exI [of _ ?fr1]) simp
next
  case (Cons v rest)
  from fetch p0 have lt: "p < int (length (co_instrs c))"
    by (simp add: py_index_def split: if_splits)
  let ?fr1 = "fr\<lparr>data_stack := s @ [VIter a, v], heap := (heap fr)(a := rest),
                 counter := p + 1\<rparr>"
  from Cons.prems
  have "for_iter_op rt to fr
          = Inr (fr\<lparr>data_stack := s @ [VIter a, v], heap := (heap fr)(a := rest)\<rparr>)"
    by (simp add: for_iter_produces)
  with Cons.prems lt fetch x have b: "loop_body rt fr = Inr (Continue ?fr1)"
    by (simp add: loop_body_def)
  from Cons.prems
  have "code ?fr1 = c \<and> index ?fr1 = idx \<and> counter ?fr1 = p + 1
          \<and> data_stack ?fr1 = s @ [VIter a, v]" by simp
  with body obtain m fr2 where
    m: "passes rt m ?fr1 = Inr (Continue fr2)"
    and fr2: "code fr2 = c" "index fr2 = idx" "counter fr2 = p"
      "data_stack fr2 = s @ [VIter a]" "heap fr2 a = heap ?fr1 a"
    and fm: "fetches rt m ?fr1 (p + 1) = 1" "fetches rt m ?fr1 p = 0"
    unfolding body_returns_def by blast
  from fr2(5) have "heap fr2 a = rest" by simp
  from Cons.IH [OF fr2(1-4) this] obtain n fr' where
    n: "passes rt n fr2 = Inr (Continue fr')"
    and fr': "counter fr' = e" "data_stack fr' = s" "heap fr' a = []"
    and fn: "fetches rt n fr2 (p + 1) = length rest" "fetches rt n fr2 p = length rest + 1"
    by blast
  have "passes rt (Suc (m + n)) fr = Inr (Continue fr')"
    using b passes_add [OF m, of n] n by simp
  moreover have "fetches rt (Suc (m + n)) fr (p + 1) = length (v # rest)"
    using b Cons.prems fetches_add [OF m, of n "p + 1"] fm fn by simp
  moreover have "fetches rt (Suc (m + n)) fr p = length (v # rest) + 1"
    using b Cons.prems lt fetches_add [OF m, of n p] fm fn by simp
  ultimately show ?case using fr' by blast
qed

lemma sample_body_returns:
  "body_returns sample_rt code_loop (build_index (co_instrs code_loop) 0 Map.empty) 0 0"
  unfolding body_returns_def
proof (intro allI impI)
  fix fr :: frame and s v
  assume h: "code fr = code_loop
      \<and> index fr = build_index (co_instrs code_loop) 0 Map.empty \<and> counter fr = 0 + 1
      \<and> data_stack fr = s @ [VIter 0, v]"
  let ?fr1 = "fr\<lparr>data_stack := s @ [VIter 0], counter := 2\<rparr>"
  let ?fr2 = "fr\<lparr>data_stack := s @ [VIter 0], counter := 0\<rparr>"
  from h have b1: "loop_body sample_rt fr = Inr (Continue ?fr1)"
    by (simp add: loop_body_def py_index_def code_loop_def pop_top_op_def pop_def
        butlast_append)
  from h have b2: "loop_body sample_rt ?fr1 = Inr (Continue ?fr2)"
    by (simp add: loop_body_def py_index_def code_loop_def jump_backward_op_def)
  from b1 b2 have "passes sample_rt (Suc (Suc 0)) fr = Inr (Continue ?fr2)" by simp
  moreover from h b1 b2 have "fetches sample_rt (Suc (Suc 0)) fr (0 + 1) = 1"
    by (simp add: code_loop_def)
  moreover from h b1 b2 have "fetches sample_rt (Suc (Suc 0)) fr 0 = 0"
    by (simp add: code_loop_def)
  moreover from h have "code ?fr2 = code_loop
      \<and> index ?fr2 = build_index (co_instrs code_loop) 0 Map.empty \<and> counter ?fr2 = 0
      \<and> data_stack ?fr2 = s @ [VIter 0] \<and> heap ?fr2 0 = heap fr 0" by simp
  ultimately show "\<exists>m fr'. passes sample_rt m fr = Inr (Continue fr')
          \<and> code fr' = code_loop
          \<and> index fr' = build_index (co_instrs code_loop) 0 Map.empty \<and> counter fr' = 0
          \<and> data_stack fr' = s @ [VIter 0] \<and> heap fr' 0 = heap fr 0
          \<and> fetches sample_rt m fr (0 + 1) = 1 \<and> fetches sample_rt m fr 0 = 0"
    by blast
qed

section \<open>The call instruction\<close>

text \<open>
  Claim C1, as the specification states it, makes the value popped after the arguments
  the callable in both branches and a value found below it the receiver. The code does
  the opposite in the second branch. With the stack \<open>VObj 1, VObj 2, VInt 7\<close> and one
  argument, \<open>call_op\<close> calls \<open>VObj 1\<close> with the arguments \<open>VObj 2, VInt 7\<close>, and the
  instruction as claimed would call \<open>VObj 2\<close> with \<open>VObj 1, VInt 7\<close>.
\<close>

theorem call_op_receiver_counterexample:
  "call_op sample_rt 1 (sample_frame [VObj 1, VObj 2, VInt 7] no_iters)
     = Inr (sample_frame [VTuple [VObj 1, VTuple [VObj 2, VInt 7], VDict []]] no_iters)
   \<and> claimed_call_op sample_rt 1 (sample_frame [VObj 1, VObj 2, VInt 7] no_iters)
     = Inr (sample_frame [VTuple [VObj 2, VTuple [VObj 1, VInt 7], VDict []]] no_iters)
   \<and> call_op sample_rt 1 (sample_frame [VObj 1, VObj 2, VInt 7] no_iters)
     \<noteq> claimed_call_op sample_rt 1 (sample_frame [VObj 1, VObj 2, VInt 7] no_iters)"
  by (simp add: claimed_call_op_def call_op_def stack_defs sample_frame_defs
      sample_rt_def sample_call_def)

text \<open>
  Claim C1, amended. Let the stack end with a value \<open>below\<close>, a value \<open>v\<close>, the
  positional arguments \<open>pos\<close> and the keyword values \<open>kws\<close>, one for each pending
  keyword name, and let the argument count be the number of both. Then \<open>call_op\<close> pops
  all of them and pairs the keyword values with the recorded names. If \<open>below\<close> is the
  null marker it calls \<open>v\<close> with exactly these positional and keyword arguments.
  Otherwise it calls \<open>below\<close>, the deeper value, with \<open>v\<close> put in front of the
  positional arguments as the receiver. The result of the call is pushed in place of
  everything popped; an error of the call is the error of the instruction.
\<close>

theorem call_op_convention:
  assumes st: "data_stack fr = base @ [below, v] @ pos @ kws"
    and len: "length kws = length (kw_names fr)"
    and argc: "argc = int (length pos + length kws)"
  shows "call_op rt argc fr =
     (if below = VNone then
        (case rt_call rt v pos (dict_of [] (zip (kw_names fr) kws)) (heap fr) of
           Inl e \<Rightarrow> Inl e
         | Inr (r, h) \<Rightarrow> Inr (fr\<lparr>data_stack := base @ [r], heap := h\<rparr>))
      else
        (case rt_call rt below (v # pos) (dict_of [] (zip (kw_names fr) kws)) (heap fr) of
           Inl e \<Rightarrow> Inl e
         | Inr (r, h) \<Rightarrow> Inr (fr\<lparr>data_stack := base @ [r], heap := h\<rparr>)))"
proof -
  let ?fr1 = "fr\<lparr>data_stack := base @ [below, v]\<rparr>"
  have "data_stack fr = (base @ [below, v]) @ (pos @ kws)" using st by simp
  moreover have "argc = int (length (pos @ kws))" using argc by simp
  ultimately have popn: "popn argc fr = (pos @ kws, ?fr1)" by (rule popn_append)
  show ?thesis
  proof (cases "kw_names fr = []")
    case True
    with len have "kws = []" by simp
    with True show ?thesis
      by (cases "below = VNone")
        (simp_all add: call_op_def popn pop_upd_snoc2 pop_upd_snoc top_upd_snoc push_def
          split: sum.splits)
  next
    case False
    with len
    have "slice_to (pos @ kws) (int (length (pos @ kws)) - int (length (kw_names fr))) = pos"
      and "slice_from (pos @ kws) (- int (length (kw_names fr))) = kws"
      by (simp_all add: slice_to_def slice_from_def)
    with False show ?thesis
      by (cases "below = VNone")
        (simp_all add: call_op_def popn pop_upd_snoc2 pop_upd_snoc top_upd_snoc push_def
          split: sum.splits)
  qed
qed

text \<open>
  Claim C1, witness: a call through the null marker with one positional and one keyword
  argument, and a call with a value that is not the null marker below the top one.
\<close>

theorem call_op_convention_witness:
  "call_op sample_rt 2
     ((sample_frame [VInt 0, VNone, VObj 2, VInt 7, VInt 8] no_iters)\<lparr>kw_names := [''k'']\<rparr>)
     = Inr ((sample_frame [VInt 0, VTuple [VObj 2, VTuple [VInt 7], VDict [(''k'', VInt 8)]]]
               no_iters)\<lparr>kw_names := [''k'']\<rparr>)
   \<and> call_op sample_rt 1 (sample_frame [VObj 1, VObj 2, VInt 7] no_iters)
     = Inr (sample_frame [VTuple [VObj 1, VTuple [VObj 2, VInt 7], VDict []]] no_iters)"
proof -
  let ?A = "(sample_frame [VInt 0, VNone, VObj 2, VInt 7, VInt 8] no_iters)\<lparr>kw_names := [''k'']\<rparr>"
  let ?B = "sample_frame [VObj 1, VObj 2, VInt 7] no_iters"
  have a1: "data_stack ?A = [VInt 0] @ [VNone, VObj 2] @ [VInt 7] @ [VInt 8]"
    by (simp add: sample_frame_defs)
  have a2: "length [VInt 8] = length (kw_names ?A)"
    by (simp add: sample_frame_defs)
  have a3: "(2::int) = int (length [VInt 7] + length [VInt 8])"
    by simp
  have b1: "data_stack ?B = [] @ [VObj 1, VObj 2] @ [VInt 7] @ []"
    by (simp add: sample_frame_defs)
  have b2: "length ([]::val list) = length (kw_names ?B)"
    by (simp add: sample_frame_defs)
  have b3: "(1::int) = int (length [VInt 7] + length ([]::val list))"
    by simp
  have "call_op sample_rt 2 ?A
     = Inr ((sample_frame [VInt 0, VTuple [VObj 2, VTuple [VInt 7], VDict [(''k'', VInt 8)]]]
               no_iters)\<lparr>kw_names := [''k'']\<rparr>)"
    by (subst call_op_convention [OF a1 a2 a3])
      (simp add: sample_frame_defs sample_rt_def sample_call_def)
  moreover have "call_op sample_rt 1 ?B
     = Inr (sample_frame [VTuple [VObj 1, VTuple [VObj 2, VInt 7], VDict []]] no_iters)"
    by (subst call_op_convention [OF b1 b2 b3])
      (simp add: sample_frame_defs sample_rt_def sample_call_def)
  ultimately show ?thesis by simp
qed

text \<open>
  Claim C3 fails on the code: no handler resets \<^verbatim>\<open>self.kw_names\<close>. After a
  \<^verbatim>\<open>kw_names\<close> instruction and its call, the slot still holds the name \<^verbatim>\<open>k\<close>, and a
  later call with one argument and no \<^verbatim>\<open>kw_names\<close> of its own passes that argument
  as the keyword \<^verbatim>\<open>k\<close> instead of positionally.
\<close>

theorem kw_names_survive_call:
  "kw_names_op 1 (sample_frame [VNone, VObj 1, VInt 5] no_iters)
     = Inr ((sample_frame [VNone, VObj 1, VInt 5] no_iters)\<lparr>kw_names := [''k'']\<rparr>)
   \<and> call_op sample_rt 1
       ((sample_frame [VNone, VObj 1, VInt 5] no_iters)\<lparr>kw_names := [''k'']\<rparr>)
     = Inr ((sample_frame [VTuple [VObj 1, VTuple [], VDict [(''k'', VInt 5)]]] no_iters)
              \<lparr>kw_names := [''k'']\<rparr>)
   \<and> call_op sample_rt 1
       ((sample_frame [VNone, VObj 2, VInt 6] no_iters)\<lparr>kw_names := [''k'']\<rparr>)
     = Inr ((sample_frame [VTuple [VObj 2, VTuple [], VDict [(''k'', VInt 6)]]] no_iters)
              \<lparr>kw_names := [''k'']\<rparr>)"
  by (simp add: kw_names_op_def call_op_def stack_defs py_index_def sample_frame_defs
      sample_rt_def sample_call_def)

section \<open>Argument binding\<close>

text \<open>
  Claim C2 fails on the code: the test \<^verbatim>\<open>key not in names\<close> looks the keyword up in
  \<^verbatim>\<open>co_varnames\<close>, which lists every local variable and not only the parameters. For
  \<^verbatim>\<open>def g(a): x = a\<close> the call \<^verbatim>\<open>g(1, x=5)\<close> is accepted and binds \<^verbatim>\<open>x\<close>, where
  the claim requires the too-many-keyword-arguments error. For
  \<^verbatim>\<open>def gk(a, **kw): x = a\<close> the call \<^verbatim>\<open>gk(1, x=5)\<close> binds \<^verbatim>\<open>x\<close> too and leaves
  the collector empty, where the claim requires \<^verbatim>\<open>x\<close> to go into the collector.
\<close>

theorem bind_args_local_name_accepted:
  "bind_args code_g [] [] [VInt 1] [(''x'', VInt 5)] = Inr [(''x'', VInt 5), (''a'', VInt 1)]
   \<and> bind_args code_gk [] [] [VInt 1] [(''x'', VInt 5)]
       = Inr [(''kw'', VDict []), (''x'', VInt 5), (''a'', VInt 1)]"
  by (simp add: bind_defs code_g_def code_gk_def)

text \<open>
  Claim C4 fails on the code for its third call, by the defect of claim C2. For
  \<^verbatim>\<open>def f(a, b=10)\<close> with the body \<^verbatim>\<open>pass\<close> the three calls do what the claim says:
  \<^verbatim>\<open>f(5)\<close> binds \<^verbatim>\<open>a\<close> to 5 and \<^verbatim>\<open>b\<close> to 10, \<^verbatim>\<open>f(5, b=20)\<close> binds \<^verbatim>\<open>a\<close> to 5
  and \<^verbatim>\<open>b\<close> to 20, and \<^verbatim>\<open>f(a=1, b=2, c=3)\<close> fails with the
  too-many-keyword-arguments error. For the same declared shape with the body
  \<^verbatim>\<open>c = a + b\<close> the first two calls bind the same, but \<^verbatim>\<open>f(a=1, b=2, c=3)\<close> is
  accepted and binds the local variable \<^verbatim>\<open>c\<close> to 3. A binding is a dictionary, listed
  here in the order in which its keys were first bound.
\<close>

theorem bind_args_scenario_with_local:
  "bind_args code_f [VInt 10] [] [VInt 5] [] = Inr [(''a'', VInt 5), (''b'', VInt 10)]
   \<and> bind_args code_f [VInt 10] [] [VInt 5] [(''b'', VInt 20)]
       = Inr [(''b'', VInt 20), (''a'', VInt 5)]
   \<and> bind_args code_f [VInt 10] [] [] [(''a'', VInt 1), (''b'', VInt 2), (''c'', VInt 3)]
       = Inl (TypeError ERR_TOO_MANY_KW_ARGS)
   \<and> bind_args code_fc [VInt 10] [] [VInt 5] [] = Inr [(''a'', VInt 5), (''b'', VInt 10)]
   \<and> bind_args code_fc [VInt 10] [] [VInt 5] [(''b'', VInt 20)]
       = Inr [(''b'', VInt 20), (''a'', VInt 5)]
   \<and> bind_args code_fc [VInt 10] [] [] [(''a'', VInt 1), (''b'', VInt 2), (''c'', VInt 3)]
       = Inr [(''a'', VInt 1), (''b'', VInt 2), (''c'', VInt 3)]"
  by (simp add: bind_defs code_f_def code_fc_def)

section \<open>Operators, containers, formatting and attributes\<close>

text \<open>
  Claim C5 fails on the code: the entries 13 to 25 call the method of the left operand
  and stop there, while the operator syntax of the entries 0 to 12 goes on to the
  reflected method and raises TypeError when neither accepts. For the operands 1 and
  \<^verbatim>\<open>"a"\<close> the entry 0 raises TypeError and the entry 13 pushes \<^verbatim>\<open>NotImplemented\<close>.
\<close>

theorem binary_tables_differ:
  "binary_op_op sample_rt 0 (sample_frame [VInt 1, VStr ''a''] no_iters)
     = Inl (TypeError ''unsupported operand type(s)'')
   \<and> binary_op_op sample_rt 13 (sample_frame [VInt 1, VStr ''a''] no_iters)
     = Inr (sample_frame [VNotImplemented] no_iters)"
  by (simp add: binary_op_op_def BINARIES_def pop_def push_def sample_frame_defs
      sample_rt_def sample_operator_def sample_method_def as_int_def)

text \<open>
  Claim C8 fails on the code for \<^verbatim>\<open>build_tuple\<close>: the handler pushes the list that
  \<^verbatim>\<open>popn\<close> returned and never makes a tuple of it. With 1, 2, 3 on the stack,
  \<^verbatim>\<open>build_tuple\<close> of two values pushes the list \<^verbatim>\<open>[2, 3]\<close>, exactly as
  \<^verbatim>\<open>build_list\<close> does.
\<close>

theorem build_tuple_pushes_list:
  "build_tuple_op 2 (sample_frame [VInt 1, VInt 2, VInt 3] no_iters)
     = Inr (sample_frame [VInt 1, VList [VInt 2, VInt 3]] no_iters)
   \<and> build_list_op 2 (sample_frame [VInt 1, VInt 2, VInt 3] no_iters)
     = Inr (sample_frame [VInt 1, VList [VInt 2, VInt 3]] no_iters)"
  by (simp add: build_tuple_op_def build_list_op_def stack_defs sample_frame_defs)

text \<open>
  Claim C9 fails on the code: the test \<^verbatim>\<open>(flags & 4) == 1\<close> never holds, so the
  formatter branch is dead, and no branch pushes anything when the low two bits are 0.
  With the flags 4, an object 5 and a formatter on top of it, the handler pops the
  formatter and pushes nothing; with the flags 0 it pops the object and pushes nothing.
\<close>

theorem format_value_flag_ignored:
  "format_value_op sample_rt 4 (sample_frame [VInt 5, VObj 1] no_iters)
     = Inr (sample_frame [VInt 5] no_iters)
   \<and> format_value_op sample_rt 0 (sample_frame [VInt 5] no_iters)
     = Inr (sample_frame [] no_iters)"
  by (simp add: format_value_op_def pop_def sample_frame_defs)

text \<open>
  Claim C10 fails on the code: the probe is \<^verbatim>\<open>obj.__getattribute__(namei)\<close>, which is
  no test of whether the object has the attribute. For the class \<^verbatim>\<open>str\<close> on top of the
  stack and the name \<^verbatim>\<open>upper\<close>, \<^verbatim>\<open>getattr\<close> finds the attribute, and
  \<^verbatim>\<open>load_method\<close>, which uses \<^verbatim>\<open>getattr\<close>, pushes it; \<^verbatim>\<open>load_attr\<close> raises
  TypeError instead of leaving the stack as it was. On an instance that has the
  attribute, here \<open>VObj 7\<close> and \<^verbatim>\<open>x\<close>, the stack is left as it was.
\<close>

theorem load_attr_fails_on_class:
  "rt_getattr sample_rt (VClass ''str'') ''upper'' no_iters = Inr (VObj 0, no_iters)
   \<and> load_method_op sample_rt ''upper'' (sample_frame [VInt 1, VClass ''str''] no_iters)
       = Inr (sample_frame [VInt 1, VNone, VObj 0] no_iters)
   \<and> load_attr_op sample_rt ''upper'' (sample_frame [VInt 1, VClass ''str''] no_iters)
       = Inl (TypeError ''expected 1 argument, got 0'')
   \<and> load_attr_op sample_rt ''x'' (sample_frame [VInt 1, VObj 7] no_iters)
       = Inr (sample_frame [VInt 1, VObj 7] no_iters)"
  by (simp add: load_attr_op_def load_method_op_def pop_def push_def sample_frame_defs
      sample_rt_def sample_getattr_def sample_getattribute_def)

section \<open>The dispatch loop\<close>

text \<open>What each handler that can jump does to a stack with the tested value on top.\<close>

lemma for_iter_stops:
  assumes "data_stack fr = s @ [it]" and "py_next rt it (heap fr) = Inl StopIteration"
    and "index fr to = Some i"
  shows "for_iter_op rt to fr = Inr (fr\<lparr>data_stack := s, counter := i - 1\<rparr>)"
  using assms by (simp add: for_iter_op_def top_stack_def pop_def jump_forward_op_def)

lemma pop_jumps:
  assumes "data_stack fr = s @ [c]" and "rt_bool rt c (heap fr) = Inr (b, h)"
    and "index fr to = Some i"
  shows "pop_jump_forward_if_true_op rt to fr
           = Inr (if b then fr\<lparr>data_stack := s, heap := h, counter := i - 1\<rparr>
                  else fr\<lparr>data_stack := s, heap := h\<rparr>)"
    and "pop_jump_forward_if_false_op rt to fr
           = Inr (if \<not> b then fr\<lparr>data_stack := s, heap := h, counter := i - 1\<rparr>
                  else fr\<lparr>data_stack := s, heap := h\<rparr>)"
    and "pop_jump_backward_if_true_op rt to fr
           = Inr (if b then fr\<lparr>data_stack := s, heap := h, counter := i - 1\<rparr>
                  else fr\<lparr>data_stack := s, heap := h\<rparr>)"
    and "pop_jump_backward_if_false_op rt to fr
           = Inr (if \<not> b then fr\<lparr>data_stack := s, heap := h, counter := i - 1\<rparr>
                  else fr\<lparr>data_stack := s, heap := h\<rparr>)"
  using assms
  by (simp_all add: pop_jump_forward_if_true_op_def pop_jump_forward_if_false_op_def
      pop_jump_backward_if_true_op_def pop_jump_backward_if_false_op_def pop_def
      jump_forward_op_def)

lemma or_pop_jumps:
  assumes "data_stack fr = s @ [c]" and "rt_bool rt c (heap fr) = Inr (b, h)"
    and "index fr to = Some i"
  shows "jump_if_true_or_pop_op rt to fr
           = Inr (if b then fr\<lparr>heap := h, counter := i - 1\<rparr>
                  else fr\<lparr>data_stack := s, heap := h\<rparr>)"
    and "jump_if_false_or_pop_op rt to fr
           = Inr (if \<not> b then fr\<lparr>heap := h, counter := i - 1\<rparr>
                  else fr\<lparr>data_stack := s, heap := h\<rparr>)"
  using assms
  by (simp_all add: jump_if_true_or_pop_op_def jump_if_false_or_pop_op_def pop_def
      top_stack_def jump_forward_op_def)

lemma none_jumps:
  assumes "data_stack fr = s @ [item]" and "index fr to = Some i"
  shows "pop_jump_forward_if_none_op to fr
           = Inr (if item = VNone then fr\<lparr>data_stack := s, counter := i - 1\<rparr>
                  else fr\<lparr>data_stack := s\<rparr>)"
  using assms by (simp add: pop_jump_forward_if_none_op_def pop_def jump_forward_op_def)

text \<open>
  Claim C6. When the instruction pointer has reached or passed the length of the
  stream, the loop stops and the result is the content of the return-value slot. A new
  frame has \<^verbatim>\<open>None\<close> there, and no instruction but \<^verbatim>\<open>RETURN_VALUE\<close> writes the slot,
  so a run that comes to the end of the stream after any number of passes returns
  \<^verbatim>\<open>None\<close>. Every jump handler that returns has either left the pointer alone or set
  it to one less than the Offset Index position of its target. Each of the ten sets it
  so exactly when it jumps: the two unconditional jumps always; \<^verbatim>\<open>for_iter\<close> when the
  iterator on top is exhausted, popping it; the four conditional jumps that pop, when
  the popped value has the truth value they wait for; the two that jump or pop, when the
  value on top has it, and then they keep the value; and the jump on \<^verbatim>\<open>None\<close> when the
  popped value is \<^verbatim>\<open>None\<close>. Otherwise the conditional ones leave the pointer alone.
  And when the instruction fetched by a pass of the loop has set the pointer so, with
  the Offset Index built as \<^verbatim>\<open>run\<close> builds it, the pass ends with the pointer on the
  target position, and the instruction fetched next is the one whose offset is the
  target offset.
\<close>

theorem dispatch_loop_end_and_jumps:
  "(int (length (co_instrs (code fr))) \<le> counter fr
      \<longrightarrow> run_loop rt fr = Some (Inr (return_value fr)))
   \<and> (\<forall>n fr'. passes rt n ((new_frame c hp)\<lparr>index := build_index (co_instrs c) 0 Map.empty\<rparr>)
                = Inr (Continue fr')
              \<and> int (length (co_instrs c)) \<le> counter fr'
      \<longrightarrow> run rt (new_frame c hp) = Some (Inr VNone))
   \<and> (\<forall>h \<in> set (jump_handlers rt). \<forall>fr'. h to fr = Inr fr'
      \<longrightarrow> counter fr' = counter fr \<or> (\<exists>i. index fr to = Some i \<and> counter fr' = i - 1))
   \<and> (\<forall>i. index fr to = Some i
      \<longrightarrow> jump_forward_op to fr = Inr (fr\<lparr>counter := i - 1\<rparr>)
          \<and> jump_backward_op to fr = Inr (fr\<lparr>counter := i - 1\<rparr>))
   \<and> (\<forall>i s it. data_stack fr = s @ [it] \<and> py_next rt it (heap fr) = Inl StopIteration
          \<and> index fr to = Some i
      \<longrightarrow> for_iter_op rt to fr = Inr (fr\<lparr>data_stack := s, counter := i - 1\<rparr>))
   \<and> (\<forall>i s cond b h. data_stack fr = s @ [cond] \<and> rt_bool rt cond (heap fr) = Inr (b, h)
          \<and> index fr to = Some i
      \<longrightarrow> pop_jump_forward_if_true_op rt to fr
            = Inr (if b then fr\<lparr>data_stack := s, heap := h, counter := i - 1\<rparr>
                   else fr\<lparr>data_stack := s, heap := h\<rparr>)
          \<and> pop_jump_forward_if_false_op rt to fr
            = Inr (if \<not> b then fr\<lparr>data_stack := s, heap := h, counter := i - 1\<rparr>
                   else fr\<lparr>data_stack := s, heap := h\<rparr>)
          \<and> pop_jump_backward_if_true_op rt to fr
            = Inr (if b then fr\<lparr>data_stack := s, heap := h, counter := i - 1\<rparr>
                   else fr\<lparr>data_stack := s, heap := h\<rparr>)
          \<and> pop_jump_backward_if_false_op rt to fr
            = Inr (if \<not> b then fr\<lparr>data_stack := s, heap := h, counter := i - 1\<rparr>
                   else fr\<lparr>data_stack := s, heap := h\<rparr>)
          \<and> jump_if_true_or_pop_op rt to fr
            = Inr (if b then fr\<lparr>heap := h, counter := i - 1\<rparr>
                   else fr\<lparr>data_stack := s, heap := h\<rparr>)
          \<and> jump_if_false_or_pop_op rt to fr
            = Inr (if \<not> b then fr\<lparr>heap := h, counter := i - 1\<rparr>
                   else fr\<lparr>data_stack := s, heap := h\<rparr>))
   \<and> (\<forall>i s item. data_stack fr = s @ [item] \<and> index fr to = Some i
      \<longrightarrow> pop_jump_forward_if_none_op to fr
            = Inr (if item = VNone then fr\<lparr>data_stack := s, counter := i - 1\<rparr>
                   else fr\<lparr>data_stack := s\<rparr>))
   \<and> (\<forall>i x fr1. index fr = build_index (co_instrs (code fr)) 0 Map.empty
          \<and> index fr to = Some i
          \<and> counter fr < int (length (co_instrs (code fr)))
          \<and> py_index (co_instrs (code fr)) (counter fr) = Inr x
          \<and> ins x \<noteq> RETURN_VALUE
          \<and> dispatch rt (ins x) fr = Inr fr1
          \<and> counter fr1 = i - 1
      \<longrightarrow> (\<exists>fr2 y. loop_body rt fr = Inr (Continue fr2) \<and> counter fr2 = i
             \<and> py_index (co_instrs (code fr2)) (counter fr2) = Inr y \<and> offset y = to))"
proof (intro conjI allI impI ballI)
  assume "int (length (co_instrs (code fr))) \<le> counter fr"
  then show "run_loop rt fr = Some (Inr (return_value fr))" by (rule run_loop_finish)
next
  fix n fr'
  assume "passes rt n ((new_frame c hp)\<lparr>index := build_index (co_instrs c) 0 Map.empty\<rparr>)
            = Inr (Continue fr') \<and> int (length (co_instrs c)) \<le> counter fr'"
  then show "run rt (new_frame c hp) = Some (Inr VNone)"
    using run_falls_off_end by blast
next
  fix h fr'
  assume "h \<in> set (jump_handlers rt)" and "h to fr = Inr fr'"
  then show "counter fr' = counter fr \<or> (\<exists>i. index fr to = Some i \<and> counter fr' = i - 1)"
    by (rule jump_handlers_counter)
next
  fix i
  assume "index fr to = Some i"
  then show "jump_forward_op to fr = Inr (fr\<lparr>counter := i - 1\<rparr>)"
    by (simp add: jump_forward_op_def)
next
  fix i
  assume "index fr to = Some i"
  then show "jump_backward_op to fr = Inr (fr\<lparr>counter := i - 1\<rparr>)"
    by (simp add: jump_backward_op_def)
next
  fix i s it
  assume "data_stack fr = s @ [it] \<and> py_next rt it (heap fr) = Inl StopIteration
          \<and> index fr to = Some i"
  then show "for_iter_op rt to fr = Inr (fr\<lparr>data_stack := s, counter := i - 1\<rparr>)"
    by (simp add: for_iter_stops)
next
  fix i s cond b h
  assume a: "data_stack fr = s @ [cond] \<and> rt_bool rt cond (heap fr) = Inr (b, h)
          \<and> index fr to = Some i"
  then have st: "data_stack fr = s @ [cond]" and tr: "rt_bool rt cond (heap fr) = Inr (b, h)"
    and ix: "index fr to = Some i" by simp_all
  show "pop_jump_forward_if_true_op rt to fr
            = Inr (if b then fr\<lparr>data_stack := s, heap := h, counter := i - 1\<rparr>
                   else fr\<lparr>data_stack := s, heap := h\<rparr>)"
    by (rule pop_jumps(1) [OF st tr ix])
  show "pop_jump_forward_if_false_op rt to fr
            = Inr (if \<not> b then fr\<lparr>data_stack := s, heap := h, counter := i - 1\<rparr>
                   else fr\<lparr>data_stack := s, heap := h\<rparr>)"
    by (rule pop_jumps(2) [OF st tr ix])
  show "pop_jump_backward_if_true_op rt to fr
            = Inr (if b then fr\<lparr>data_stack := s, heap := h, counter := i - 1\<rparr>
                   else fr\<lparr>data_stack := s, heap := h\<rparr>)"
    by (rule pop_jumps(3) [OF st tr ix])
  show "pop_jump_backward_if_false_op rt to fr
            = Inr (if \<not> b then fr\<lparr>data_stack := s, heap := h, counter := i - 1\<rparr>
                   else fr\<lparr>data_stack := s, heap := h\<rparr>)"
    by (rule pop_jumps(4) [OF st tr ix])
  show "jump_if_true_or_pop_op rt to fr
            = Inr (if b then fr\<lparr>heap := h, counter := i - 1\<rparr>
                   else fr\<lparr>data_stack := s, heap := h\<rparr>)"
    by (rule or_pop_jumps(1) [OF st tr ix])
  show "jump_if_false_or_pop_op rt to fr
            = Inr (if \<not> b then fr\<lparr>heap := h, counter := i - 1\<rparr>
                   else fr\<lparr>data_stack := s, heap := h\<rparr>)"
    by (rule or_pop_jumps(2) [OF st tr ix])
next
  fix i s item
  assume "data_stack fr = s @ [item] \<and> index fr to = Some i"
  then show "pop_jump_forward_if_none_op to fr
            = Inr (if item = VNone then fr\<lparr>data_stack := s, counter := i - 1\<rparr>
                   else fr\<lparr>data_stack := s\<rparr>)"
    by (simp add: none_jumps)
next
  fix i x fr1
  assume "index fr = build_index (co_instrs (code fr)) 0 Map.empty
          \<and> index fr to = Some i
          \<and> counter fr < int (length (co_instrs (code fr)))
          \<and> py_index (co_instrs (code fr)) (counter fr) = Inr x
          \<and> ins x \<noteq> RETURN_VALUE
          \<and> dispatch rt (ins x) fr = Inr fr1
          \<and> counter fr1 = i - 1"
  then show "\<exists>fr2 y. loop_body rt fr = Inr (Continue fr2) \<and> counter fr2 = i
             \<and> py_index (co_instrs (code fr2)) (counter fr2) = Inr y \<and> offset y = to"
    using jump_lands_on_target by blast
qed

text \<open>
  Claim C6, witness: a frame of the sample loop with the pointer past the end; a run of
  the two instructions without a return; the jump back to offset 0 from position 2;
  \<^verbatim>\<open>for_iter\<close> on an exhausted iterator; each conditional handler on the branch code
  with \<^verbatim>\<open>False\<close> or \<^verbatim>\<open>None\<close> on the stack and the target offset 6 at position 3; and
  the pass of the loop that takes the conditional jump of the branch code.
\<close>

theorem dispatch_loop_end_and_jumps_witness:
  "run_loop sample_rt ((sample_frame [] no_iters)\<lparr>counter := 5\<rparr>) = Some (Inr VNone)
   \<and> run sample_rt (new_frame code_no_return no_iters) = Some (Inr VNone)
   \<and> jump_forward_op 0 ((sample_frame [] no_iters)\<lparr>counter := 2\<rparr>)
       = Inr ((sample_frame [] no_iters)\<lparr>counter := - 1\<rparr>)
   \<and> jump_backward_op 0 ((sample_frame [] no_iters)\<lparr>counter := 2\<rparr>)
       = Inr ((sample_frame [] no_iters)\<lparr>counter := - 1\<rparr>)
   \<and> (\<exists>fr2 y. loop_body sample_rt ((sample_frame [] no_iters)\<lparr>counter := 2\<rparr>)
                 = Inr (Continue fr2)
          \<and> counter fr2 = 0
          \<and> py_index (co_instrs (code fr2)) (counter fr2) = Inr y \<and> offset y = 0)
   \<and> for_iter_op sample_rt 6 (sample_frame [VInt 9, VIter 0] no_iters)
       = Inr ((sample_frame [VInt 9] no_iters)\<lparr>counter := 2\<rparr>)
   \<and> pop_jump_forward_if_false_op sample_rt 6 (branch_frame [VBool False] 1)
       = Inr (branch_frame [] 2)
   \<and> pop_jump_forward_if_true_op sample_rt 6 (branch_frame [VBool False] 1)
       = Inr (branch_frame [] 1)
   \<and> pop_jump_backward_if_false_op sample_rt 6 (branch_frame [VBool False] 1)
       = Inr (branch_frame [] 2)
   \<and> pop_jump_backward_if_true_op sample_rt 6 (branch_frame [VBool False] 1)
       = Inr (branch_frame [] 1)
   \<and> jump_if_false_or_pop_op sample_rt 6 (branch_frame [VBool False] 1)
       = Inr (branch_frame [VBool False] 2)
   \<and> jump_if_true_or_pop_op sample_rt 6 (branch_frame [VBool False] 1)
       = Inr (branch_frame [] 1)
   \<and> pop_jump_forward_if_none_op 6 (branch_frame [VNone] 1) = Inr (branch_frame [] 2)
   \<and> (\<exists>fr2 y. loop_body sample_rt (branch_frame [VBool False] 1) = Inr (Continue fr2)
          \<and> counter fr2 = 3
          \<and> py_index (co_instrs (code fr2)) (counter fr2) = Inr y \<and> offset y = 6)"
proof -
  let ?E = "(sample_frame [] no_iters)\<lparr>counter := 5\<rparr>"
  let ?J = "(sample_frame [] no_iters)\<lparr>counter := 2\<rparr>"
  let ?N = "(new_frame code_no_return no_iters)
              \<lparr>index := build_index (co_instrs code_no_return) 0 Map.empty\<rparr>"
  let ?G = "sample_frame [VInt 9, VIter 0] no_iters"
  let ?B = "branch_frame [VBool False] 1"
  let ?BN = "branch_frame [VNone] 1"
  let ?P = "\<lparr>offset = 2, ins = POP_JUMP_FORWARD_IF_FALSE 6\<rparr>"
  note E = dispatch_loop_end_and_jumps [where fr = ?E and rt = sample_rt]
  note J = dispatch_loop_end_and_jumps [where fr = ?J and rt = sample_rt and to = 0
      and c = code_no_return and hp = no_iters]
  note G = dispatch_loop_end_and_jumps [where fr = ?G and rt = sample_rt and to = 6]
  note B = dispatch_loop_end_and_jumps [where fr = ?B and rt = sample_rt and to = 6]
  note BN = dispatch_loop_end_and_jumps [where fr = ?BN and rt = sample_rt and to = 6]
  have e1: "int (length (co_instrs (code ?E))) \<le> counter ?E"
    by (simp add: sample_frame_defs)
  with E have "run_loop sample_rt ?E = Some (Inr (return_value ?E))" by blast
  then have c1: "run_loop sample_rt ?E = Some (Inr VNone)"
    by (simp add: sample_frame_defs)
  have n1: "passes sample_rt (Suc (Suc 0)) ?N = Inr (Continue (?N\<lparr>counter := 2\<rparr>))
      \<and> int (length (co_instrs code_no_return)) \<le> counter (?N\<lparr>counter := 2\<rparr>)"
    by (simp add: loop_body_def py_index_def code_no_return_def new_frame_def
        pop_top_op_def pop_def push_def)
  with J have c2: "run sample_rt (new_frame code_no_return no_iters) = Some (Inr VNone)"
    by blast
  have j1: "index ?J 0 = Some 0"
    by (simp add: sample_frame_defs)
  with J have "jump_forward_op 0 ?J = Inr (?J\<lparr>counter := 0 - 1\<rparr>)
      \<and> jump_backward_op 0 ?J = Inr (?J\<lparr>counter := 0 - 1\<rparr>)"
    by blast
  then have c3: "jump_forward_op 0 ?J = Inr ((sample_frame [] no_iters)\<lparr>counter := - 1\<rparr>)"
    and c4: "jump_backward_op 0 ?J = Inr ((sample_frame [] no_iters)\<lparr>counter := - 1\<rparr>)"
    by simp_all
  have j2: "index ?J = build_index (co_instrs (code ?J)) 0 Map.empty
      \<and> index ?J 0 = Some 0
      \<and> counter ?J < int (length (co_instrs (code ?J)))
      \<and> py_index (co_instrs (code ?J)) (counter ?J) = Inr \<lparr>offset = 4, ins = JUMP_BACKWARD 0\<rparr>
      \<and> ins \<lparr>offset = 4, ins = JUMP_BACKWARD 0\<rparr> \<noteq> RETURN_VALUE
      \<and> dispatch sample_rt (ins \<lparr>offset = 4, ins = JUMP_BACKWARD 0\<rparr>) ?J
          = Inr (?J\<lparr>counter := - 1\<rparr>)
      \<and> counter (?J\<lparr>counter := - 1\<rparr>) = 0 - 1"
    by (simp add: sample_frame_defs py_index_def jump_backward_op_def)
  with J have c5: "\<exists>fr2 y. loop_body sample_rt ?J = Inr (Continue fr2) \<and> counter fr2 = 0
          \<and> py_index (co_instrs (code fr2)) (counter fr2) = Inr y \<and> offset y = 0"
    by blast
  have g1: "data_stack ?G = [VInt 9] @ [VIter 0]
      \<and> py_next sample_rt (VIter 0) (heap ?G) = Inl StopIteration \<and> index ?G 6 = Some 3"
    by (simp add: sample_frame_defs py_next_def no_iters_def)
  with G have "for_iter_op sample_rt 6 ?G = Inr (?G\<lparr>data_stack := [VInt 9], counter := 3 - 1\<rparr>)"
    by blast
  then have c6: "for_iter_op sample_rt 6 ?G = Inr ((sample_frame [VInt 9] no_iters)\<lparr>counter := 2\<rparr>)"
    by (simp add: sample_frame_defs)
  have b1: "data_stack ?B = [] @ [VBool False]
      \<and> rt_bool sample_rt (VBool False) (heap ?B) = Inr (False, no_iters)
      \<and> index ?B 6 = Some 3"
    by (simp add: branch_frame_def new_frame_def code_branch_def sample_rt_def)
  with B have b2:
    "pop_jump_forward_if_true_op sample_rt 6 ?B
       = Inr (if False then ?B\<lparr>data_stack := [], heap := no_iters, counter := 3 - 1\<rparr>
              else ?B\<lparr>data_stack := [], heap := no_iters\<rparr>)
     \<and> pop_jump_forward_if_false_op sample_rt 6 ?B
       = Inr (if \<not> False then ?B\<lparr>data_stack := [], heap := no_iters, counter := 3 - 1\<rparr>
              else ?B\<lparr>data_stack := [], heap := no_iters\<rparr>)
     \<and> pop_jump_backward_if_true_op sample_rt 6 ?B
       = Inr (if False then ?B\<lparr>data_stack := [], heap := no_iters, counter := 3 - 1\<rparr>
              else ?B\<lparr>data_stack := [], heap := no_iters\<rparr>)
     \<and> pop_jump_backward_if_false_op sample_rt 6 ?B
       = Inr (if \<not> False then ?B\<lparr>data_stack := [], heap := no_iters, counter := 3 - 1\<rparr>
              else ?B\<lparr>data_stack := [], heap := no_iters\<rparr>)
     \<and> jump_if_true_or_pop_op sample_rt 6 ?B
       = Inr (if False then ?B\<lparr>heap := no_iters, counter := 3 - 1\<rparr>
              else ?B\<lparr>data_stack := [], heap := no_iters\<rparr>)
     \<and> jump_if_false_or_pop_op sample_rt 6 ?B
       = Inr (if \<not> False then ?B\<lparr>heap := no_iters, counter := 3 - 1\<rparr>
              else ?B\<lparr>data_stack := [], heap := no_iters\<rparr>)"
    by blast
  from b2 have c7: "pop_jump_forward_if_false_op sample_rt 6 ?B = Inr (branch_frame [] 2)"
    and c8: "pop_jump_forward_if_true_op sample_rt 6 ?B = Inr (branch_frame [] 1)"
    and c9: "pop_jump_backward_if_false_op sample_rt 6 ?B = Inr (branch_frame [] 2)"
    and c10: "pop_jump_backward_if_true_op sample_rt 6 ?B = Inr (branch_frame [] 1)"
    and c11: "jump_if_false_or_pop_op sample_rt 6 ?B = Inr (branch_frame [VBool False] 2)"
    and c12: "jump_if_true_or_pop_op sample_rt 6 ?B = Inr (branch_frame [] 1)"
    by (simp_all add: branch_frame_def new_frame_def)
  have bn1: "data_stack ?BN = [] @ [VNone] \<and> index ?BN 6 = Some 3"
    by (simp add: branch_frame_def new_frame_def code_branch_def)
  with BN have "pop_jump_forward_if_none_op 6 ?BN
      = Inr (if VNone = VNone then ?BN\<lparr>data_stack := [], counter := 3 - 1\<rparr>
             else ?BN\<lparr>data_stack := []\<rparr>)"
    by blast
  then have c13: "pop_jump_forward_if_none_op 6 ?BN = Inr (branch_frame [] 2)"
    by (simp add: branch_frame_def new_frame_def)
  have b3: "index ?B = build_index (co_instrs (code ?B)) 0 Map.empty
      \<and> index ?B 6 = Some 3
      \<and> counter ?B < int (length (co_instrs (code ?B)))
      \<and> py_index (co_instrs (code ?B)) (counter ?B) = Inr ?P
      \<and> ins ?P \<noteq> RETURN_VALUE
      \<and> dispatch sample_rt (ins ?P) ?B = Inr (branch_frame [] 2)
      \<and> counter (branch_frame [] 2) = 3 - 1"
    using c7 by (simp add: branch_frame_def new_frame_def code_branch_def py_index_def)
  with B have c14: "\<exists>fr2 y. loop_body sample_rt ?B = Inr (Continue fr2) \<and> counter fr2 = 3
          \<and> py_index (co_instrs (code fr2)) (counter fr2) = Inr y \<and> offset y = 6"
    by blast
  from c1 c2 c3 c4 c5 c6 c7 c8 c9 c10 c11 c12 c13 c14 show ?thesis by blast
qed

section \<open>Loops over an iterator\<close>

text \<open>
  Claim C7. With an iterator on top of the stack that has items left, \<^verbatim>\<open>for_iter\<close>
  leaves the iterator where it is, advances it by one item and pushes that item. With
  an exhausted iterator on top, it pops the iterator and sets the pointer for the jump
  to the exit offset. Hence, for a loop whose \<^verbatim>\<open>FOR_ITER\<close> is at the current
  position and whose body comes back to it as \<open>body_returns\<close> describes, started
  with an iterator of \<open>K\<close> remaining items on top: after some number of passes the
  pointer is at the exit position, the iterator is gone from the stack and exhausted,
  the first instruction of the body has been fetched exactly \<open>K\<close> times and
  \<^verbatim>\<open>FOR_ITER\<close> itself exactly \<open>K + 1\<close> times, the last of which took the exit.
\<close>

theorem for_iter_loop:
  "(\<forall>s a v rest. data_stack fr = s @ [VIter a] \<and> heap fr a = v # rest
      \<longrightarrow> for_iter_op rt to fr
            = Inr (fr\<lparr>data_stack := s @ [VIter a, v], heap := (heap fr)(a := rest)\<rparr>))
   \<and> (\<forall>s a e. data_stack fr = s @ [VIter a] \<and> heap fr a = [] \<and> index fr to = Some e
      \<longrightarrow> for_iter_op rt to fr = Inr (fr\<lparr>data_stack := s, counter := e - 1\<rparr>))
   \<and> (\<forall>s a e x. 0 \<le> counter fr
          \<and> py_index (co_instrs (code fr)) (counter fr) = Inr x \<and> ins x = FOR_ITER to
          \<and> index fr to = Some e
          \<and> body_returns rt (code fr) (index fr) (counter fr) a
          \<and> data_stack fr = s @ [VIter a]
      \<longrightarrow> (\<exists>n fr'. passes rt n fr = Inr (Continue fr') \<and> counter fr' = e
             \<and> data_stack fr' = s \<and> heap fr' a = []
             \<and> fetches rt n fr (counter fr + 1) = length (heap fr a)
             \<and> fetches rt n fr (counter fr) = length (heap fr a) + 1))"
proof (intro conjI allI impI)
  fix s a v rest
  assume "data_stack fr = s @ [VIter a] \<and> heap fr a = v # rest"
  then show "for_iter_op rt to fr
      = Inr (fr\<lparr>data_stack := s @ [VIter a, v], heap := (heap fr)(a := rest)\<rparr>)"
    by (simp add: for_iter_produces)
next
  fix s a e
  assume "data_stack fr = s @ [VIter a] \<and> heap fr a = [] \<and> index fr to = Some e"
  then show "for_iter_op rt to fr = Inr (fr\<lparr>data_stack := s, counter := e - 1\<rparr>)"
    by (simp add: for_iter_exhausted)
next
  fix s a e x
  assume h: "0 \<le> counter fr
          \<and> py_index (co_instrs (code fr)) (counter fr) = Inr x \<and> ins x = FOR_ITER to
          \<and> index fr to = Some e
          \<and> body_returns rt (code fr) (index fr) (counter fr) a
          \<and> data_stack fr = s @ [VIter a]"
  then show "\<exists>n fr'. passes rt n fr = Inr (Continue fr') \<and> counter fr' = e
             \<and> data_stack fr' = s \<and> heap fr' a = []
             \<and> fetches rt n fr (counter fr + 1) = length (heap fr a)
             \<and> fetches rt n fr (counter fr) = length (heap fr a) + 1"
    using for_iter_loop_runs [where c = "code fr" and idx = "index fr" and p = "counter fr"
        and fr = fr and xs = "heap fr a" and rt = rt and a = a and s = s and x = x
        and to = to and e = e]
    by simp
qed

text \<open>
  Claim C7, witness: the sample loop over an iterator with the two items 1 and 2, and
  the same loop with an exhausted iterator.
\<close>

theorem for_iter_loop_witness:
  "for_iter_op sample_rt 6 (sample_frame [VInt 9, VIter 0] (no_iters(0 := [VInt 1, VInt 2])))
     = Inr (sample_frame [VInt 9, VIter 0, VInt 1] (no_iters(0 := [VInt 2])))
   \<and> for_iter_op sample_rt 6 (sample_frame [VInt 9, VIter 0] no_iters)
     = Inr ((sample_frame [VInt 9] no_iters)\<lparr>counter := 2\<rparr>)
   \<and> (\<exists>n fr'. passes sample_rt n
                 (sample_frame [VInt 9, VIter 0] (no_iters(0 := [VInt 1, VInt 2])))
               = Inr (Continue fr')
          \<and> counter fr' = 3 \<and> data_stack fr' = [VInt 9] \<and> heap fr' 0 = []
          \<and> fetches sample_rt n
               (sample_frame [VInt 9, VIter 0] (no_iters(0 := [VInt 1, VInt 2]))) 1 = 2
          \<and> fetches sample_rt n
               (sample_frame [VInt 9, VIter 0] (no_iters(0 := [VInt 1, VInt 2]))) 0 = 3)"
proof -
  let ?F = "sample_frame [VInt 9, VIter 0] (no_iters(0 := [VInt 1, VInt 2]))"
  let ?G = "sample_frame [VInt 9, VIter 0] no_iters"
  note F = for_iter_loop [where fr = ?F and rt = sample_rt and to = 6]
  note G = for_iter_loop [where fr = ?G and rt = sample_rt and to = 6]
  have f1: "data_stack ?F = [VInt 9] @ [VIter 0] \<and> heap ?F 0 = VInt 1 # [VInt 2]"
    by (simp add: sample_frame_defs)
  have g1: "data_stack ?G = [VInt 9] @ [VIter 0] \<and> heap ?G 0 = [] \<and> index ?G 6 = Some 3"
    by (simp add: sample_frame_defs no_iters_def)
  have f3: "0 \<le> counter ?F
      \<and> py_index (co_instrs (code ?F)) (counter ?F) = Inr \<lparr>offset = 0, ins = FOR_ITER 6\<rparr>
      \<and> ins \<lparr>offset = 0, ins = FOR_ITER 6\<rparr> = FOR_ITER 6
      \<and> index ?F 6 = Some 3
      \<and> body_returns sample_rt (code ?F) (index ?F) (counter ?F) 0
      \<and> data_stack ?F = [VInt 9] @ [VIter 0]"
    using sample_body_returns by (simp add: sample_frame_defs py_index_def)
  from F f1 have "for_iter_op sample_rt 6 ?F
      = Inr (?F\<lparr>data_stack := [VInt 9] @ [VIter 0, VInt 1],
                 heap := (heap ?F)(0 := [VInt 2])\<rparr>)"
    by blast
  then have c1: "for_iter_op sample_rt 6 ?F
      = Inr (sample_frame [VInt 9, VIter 0, VInt 1] (no_iters(0 := [VInt 2])))"
    by (simp add: sample_frame_defs)
  from G g1 have "for_iter_op sample_rt 6 ?G = Inr (?G\<lparr>data_stack := [VInt 9], counter := 3 - 1\<rparr>)"
    by blast
  then have c2: "for_iter_op sample_rt 6 ?G = Inr ((sample_frame [VInt 9] no_iters)\<lparr>counter := 2\<rparr>)"
    by (simp add: sample_frame_defs)
  from F f3 have "\<exists>n fr'. passes sample_rt n ?F = Inr (Continue fr') \<and> counter fr' = 3
             \<and> data_stack fr' = [VInt 9] \<and> heap fr' 0 = []
             \<and> fetches sample_rt n ?F (counter ?F + 1) = length (heap ?F 0)
             \<and> fetches sample_rt n ?F (counter ?F) = length (heap ?F 0) + 1"
    by blast
  moreover have "counter ?F = 0" "length (heap ?F 0) = 2"
    by (simp_all add: sample_frame_defs)
  ultimately have c3: "\<exists>n fr'. passes sample_rt n ?F = Inr (Continue fr') \<and> counter fr' = 3
             \<and> data_stack fr' = [VInt 9] \<and> heap fr' 0 = []
             \<and> fetches sample_rt n ?F 1 = 2 \<and> fetches sample_rt n ?F 0 = 3"
    by simp
  from c1 c2 c3 show ?thesis by blast
qed

end
